theory Spec2Isabelle
  imports Complex_Main "HOL-Library.Word"
begin

section \<open>Curve arithmetic\<close>

text \<open>
  \<^verbatim>\<open>launchToken\<close> (src/src/sell.ts, second document, lines 450-455) calls
  \<^verbatim>\<open>calculateTokenAmountForBuy(new BN(solInLamports), reserves, 0)\<close>, imported from
  \<^verbatim>\<open>./utils\<close>. That module is not among the source files, so the function body is
  taken from section 4.2 of the specification. The call site fixes the types: the
  amount and both reserves are arbitrary-precision integers (BN), the fee is a number
  of basis points, and the result is an integer (it is printed with \<^verbatim>\<open>toString\<close>).
\<close>

datatype curve_error = InvalidReserves

definition effectiveIn :: "int \<Rightarrow> int \<Rightarrow> rat" where
  \<comment> \<open>Modelled from the spec: the body of calculateTokenAmountForBuy (utils.ts is missing).
      "effective input = solIn * (10000 - feeBps) / 10000": the exact quotient, not rounded.\<close>
  "effectiveIn solIn feeBps = of_int (solIn * (10000 - feeBps)) / 10000"

definition calculateTokenAmountForBuy :: "int \<Rightarrow> int \<Rightarrow> int \<Rightarrow> int \<Rightarrow> curve_error + int" where
  \<comment> \<open>Modelled from the spec: the body of calculateTokenAmountForBuy (utils.ts is missing).
      "tokensOut = floor(virtualTokenReserves * effectiveIn / (virtualSolReserves + effectiveIn))",
      one floor, applied to the whole quotient; "total over non-negative integer inputs with
      virtualSolReserves > 0, and fails with InvalidReserves only if reserves are
      non-positive".\<close>
  "calculateTokenAmountForBuy solIn virtualTokenReserves virtualSolReserves feeBps =
     (if virtualTokenReserves < 0 \<or> virtualSolReserves \<le> 0 then Inl InvalidReserves
      else let e = effectiveIn solIn feeBps
           in Inr \<lfloor>of_int virtualTokenReserves * e / (of_int virtualSolReserves + e)\<rfloor>)"

text \<open>The reserves \<^verbatim>\<open>launchToken\<close> passes (lines 451-454), and its quote for a given
  number of lamports (line 455, fee 0).\<close>

definition launch_virtualTokenReserves :: int where
  "launch_virtualTokenReserves = 1073000000000000"

definition launch_virtualSolReserves :: int where
  "launch_virtualSolReserves = 30000000000"

definition launch_tokenOut :: "int \<Rightarrow> curve_error + int" where
  "launch_tokenOut solInLamports =
     calculateTokenAmountForBuy solInLamports launch_virtualTokenReserves launch_virtualSolReserves 0"

section \<open>Addresses, account lists and instruction payloads\<close>

text \<open>
  Addresses are kept symbolic: a literal \<^verbatim>\<open>new PublicKey("...")\<close>, the result of
  \<^verbatim>\<open>PublicKey.findProgramAddress(seeds, programId)\<close> (its first component), and the result
  of \<^verbatim>\<open>getAssociatedTokenAddress(mint, owner)\<close>. The hash behind the last two belongs to
  the web3 library and is not evaluated.
\<close>

datatype pubkey =
    Base58 string
  | ProgramAddress "seed list" pubkey
  | AssociatedTokenAddress pubkey pubkey
and seed =
    Utf8 string
  | KeyBuffer pubkey

text \<open>src/src/constants.ts, and the library constants the two modules import.\<close>

definition GLOBAL :: pubkey where
  "GLOBAL = Base58 ''4wTV1YmiEkRvAtNtsSGPtUrqRYQMe5SKy2uB4Jjaxnjf''"
definition SYSTEM_PROGRAM :: pubkey where
  "SYSTEM_PROGRAM = Base58 ''11111111111111111111111111111111''"
definition RENT :: pubkey where
  "RENT = Base58 ''SysvarRent111111111111111111111111111111111''"
definition PUMP_FUN_PROGRAM :: pubkey where
  "PUMP_FUN_PROGRAM = Base58 ''6EF8rrecthR5Dkzon8Nwu78hRvfCKubJ14M5uBEwF6P''"
definition PUMP_FUN_ACCOUNT :: pubkey where
  "PUMP_FUN_ACCOUNT = Base58 ''Ce6TQqeHC9p8KetsN6JsjHK7UTZk7nasjjnr7XxXp9F1''"
definition MPL_TOKEN_METADATA :: pubkey where
  "MPL_TOKEN_METADATA = Base58 ''metaqbxxUerdq28cj1RbAWkYQm3ybzjb6a8bt518x1s''"
definition MINT_AUTHORITY :: pubkey where
  "MINT_AUTHORITY = Base58 ''TSLvdd1pWpHVjahSpsvCXUbgwsL3JAcvokwaKt1eokM''"
definition FEE_CONFIG :: pubkey where
  "FEE_CONFIG = Base58 ''8Wf5TiAheLUqBrKXeYg2JtAFFMWtKdG2BSFgqUcPVwTt''"
definition FEE_PROGRAM :: pubkey where
  "FEE_PROGRAM = Base58 ''pfeeUxB6jkeY1Hxd7CsFCAjcbHA9rWtchMGdZ6VojVZ''"
definition TOKEN_PROGRAM_ID :: pubkey where
  "TOKEN_PROGRAM_ID = Base58 ''TokenkegQfeZyiNwAJbNbGKPFXCWuBvf9Ss623VQ5DA''"
definition ASSOCIATED_TOKEN_PROGRAM_ID :: pubkey where
  "ASSOCIATED_TOKEN_PROGRAM_ID = Base58 ''ATokenGPvbdGVxr1b2hvZbsiqW5xWH25efTNsLJA8knL''"

text \<open>The fee recipients written into \<^verbatim>\<open>sellToken\<close> (line 131) and
  \<^verbatim>\<open>launchToken\<close> (line 478).\<close>

definition sell_feeRecipient :: pubkey where
  "sell_feeRecipient = Base58 ''62qc2CNXwrYqQScmEdiZFFAnJR262PxWEuNQtxfafNgV''"
definition buy_feeRecipient :: pubkey where
  "buy_feeRecipient = Base58 ''CebN5WGQ4jvEPvsVU4EoHEpgzq1VV7AbicfhtW4xC9iM''"

text \<open>The derived addresses, as both functions compute them.\<close>

definition bondingCurve :: "pubkey \<Rightarrow> pubkey" where
  "bondingCurve mint = ProgramAddress [Utf8 ''bonding-curve'', KeyBuffer mint] PUMP_FUN_PROGRAM"
definition associatedBondingCurve :: "pubkey \<Rightarrow> pubkey" where
  "associatedBondingCurve mint =
     ProgramAddress [KeyBuffer (bondingCurve mint), KeyBuffer TOKEN_PROGRAM_ID, KeyBuffer mint]
       ASSOCIATED_TOKEN_PROGRAM_ID"
definition metadata :: "pubkey \<Rightarrow> pubkey" where
  "metadata mint =
     ProgramAddress [Utf8 ''metadata'', KeyBuffer MPL_TOKEN_METADATA, KeyBuffer mint] MPL_TOKEN_METADATA"
definition creatorVault :: "pubkey \<Rightarrow> pubkey" where
  "creatorVault creator = ProgramAddress [Utf8 ''creator-vault'', KeyBuffer creator] PUMP_FUN_PROGRAM"
definition globalVolumeAccumulator :: pubkey where
  "globalVolumeAccumulator = ProgramAddress [Utf8 ''global_volume_accumulator''] PUMP_FUN_PROGRAM"
definition userVolumeAccumulator :: "pubkey \<Rightarrow> pubkey" where
  "userVolumeAccumulator owner =
     ProgramAddress [Utf8 ''user_volume_accumulator'', KeyBuffer owner] PUMP_FUN_PROGRAM"
definition eventAuthority :: pubkey where
  "eventAuthority = ProgramAddress [Utf8 ''__event_authority''] PUMP_FUN_PROGRAM"
definition feeConfigPDA :: pubkey where
  "feeConfigPDA = ProgramAddress [Utf8 ''fee_config'', KeyBuffer PUMP_FUN_PROGRAM] FEE_PROGRAM"

record AccountMeta =
  pubkey :: pubkey
  isSigner :: bool
  isWritable :: bool

definition acct :: "pubkey \<Rightarrow> bool \<Rightarrow> bool \<Rightarrow> AccountMeta" where
  "acct k s w = \<lparr>pubkey = k, isSigner = s, isWritable = w\<rparr>"

type_synonym byte = "8 word"

datatype instruction =
    SetComputeUnitLimit int
  | SetComputeUnitPrice int
  | CreateAssociatedTokenAccount pubkey pubkey pubkey pubkey
  | TransactionInstruction (keys: "AccountMeta list") (programId: pubkey) (data: "byte list")

text \<open>\<^verbatim>\<open>sellKeys\<close> (sellToken, lines 163-178): 14 accounts.\<close>

definition sellKeys :: "pubkey \<Rightarrow> pubkey \<Rightarrow> AccountMeta list" where
  "sellKeys tokenMint owner =
     [ acct GLOBAL False False,
       acct sell_feeRecipient False True,
       acct tokenMint False False,
       acct (bondingCurve tokenMint) False True,
       acct (associatedBondingCurve tokenMint) False True,
       acct (AssociatedTokenAddress tokenMint owner) False True,
       acct owner True True,
       acct SYSTEM_PROGRAM False False,
       acct (creatorVault owner) False True,
       acct TOKEN_PROGRAM_ID False False,
       acct eventAuthority False False,
       acct PUMP_FUN_PROGRAM False False,
       acct feeConfigPDA False False,
       acct FEE_PROGRAM False False ]"

text \<open>\<^verbatim>\<open>keys\<close> of the create instruction (launchToken, lines 393-408).\<close>

definition createKeys :: "pubkey \<Rightarrow> pubkey \<Rightarrow> AccountMeta list" where
  "createKeys mint owner =
     [ acct mint True True,
       acct MINT_AUTHORITY False False,
       acct (bondingCurve mint) False True,
       acct (associatedBondingCurve mint) False True,
       acct GLOBAL False False,
       acct MPL_TOKEN_METADATA False False,
       acct (metadata mint) False True,
       acct owner True True,
       acct SYSTEM_PROGRAM False False,
       acct TOKEN_PROGRAM_ID False False,
       acct ASSOCIATED_TOKEN_PROGRAM_ID False False,
       acct RENT False False,
       acct PUMP_FUN_ACCOUNT False False,
       acct PUMP_FUN_PROGRAM False False ]"

text \<open>\<^verbatim>\<open>buyKeys\<close> (launchToken, lines 481-498): 16 accounts.\<close>

definition buyKeys :: "pubkey \<Rightarrow> pubkey \<Rightarrow> AccountMeta list" where
  "buyKeys mint owner =
     [ acct GLOBAL False False,
       acct buy_feeRecipient False True,
       acct mint False False,
       acct (bondingCurve mint) False True,
       acct (associatedBondingCurve mint) False True,
       acct (AssociatedTokenAddress mint owner) False True,
       acct owner True True,
       acct SYSTEM_PROGRAM False False,
       acct TOKEN_PROGRAM_ID False False,
       acct (creatorVault owner) False True,
       acct eventAuthority False False,
       acct PUMP_FUN_PROGRAM False False,
       acct globalVolumeAccumulator False True,
       acct (userVolumeAccumulator owner) False True,
       acct FEE_CONFIG False False,
       acct FEE_PROGRAM False False ]"

subsection \<open>Payload encoding\<close>

text \<open>Little-endian bytes of a natural number, and their value.\<close>

fun le_bytes :: "nat \<Rightarrow> nat \<Rightarrow> byte list" where
  "le_bytes 0 n = []"
| "le_bytes (Suc k) n = of_nat (n mod 256) # le_bytes k (n div 256)"

fun le_value :: "byte list \<Rightarrow> nat" where
  "le_value [] = 0"
| "le_value (b # bs) = unat b + 256 * le_value bs"

definition bufferFromUInt64 :: "int \<Rightarrow> string + byte list" where
  \<comment> \<open>Modelled from the spec: bufferFromUInt64 of utils.ts (missing). Section 4.3: a fixed-width
      8-byte little-endian unsigned integer; encoding "fails with FieldTooLarge ... if an
      integer field does not fit in its declared width".\<close>
  "bufferFromUInt64 v =
     (if 0 \<le> v \<and> v < 2 ^ 64 then Inr (le_bytes 8 (nat v)) else Inl ''FieldTooLarge'')"

definition bufferFromString :: "string \<Rightarrow> string + byte list" where
  \<comment> \<open>Modelled from the spec: bufferFromString of utils.ts (missing). Section 4.3: "length-prefixed
      (4-byte little-endian length + raw UTF-8 bytes) strings"; FieldTooLarge when the byte
      length does not fit the prefix. A string is its list of UTF-8 bytes.\<close>
  "bufferFromString s =
     (if length s < 2 ^ 32 then Inr (le_bytes 4 (length s) @ map (\<lambda>c. of_nat (of_char c)) s)
      else Inl ''FieldTooLarge'')"

text \<open>The two discriminators passed to \<^verbatim>\<open>bufferFromUInt64\<close> (lines 182 and 502), and the
  create discriminator \<^verbatim>\<open>Buffer.from("181ec828051c0777", "hex")\<close> (line 415).\<close>

definition sell_discriminator :: int where
  "sell_discriminator = 12502976635542562355"
definition buy_discriminator :: int where
  "buy_discriminator = 16927863322537952870"
definition create_discriminator :: "byte list" where
  "create_discriminator = [0x18, 0x1e, 0xc8, 0x28, 0x05, 0x1c, 0x07, 0x77]"

text \<open>\<^verbatim>\<open>Buffer.concat\<close> of buffers, any of which may have failed to encode.\<close>

fun concat_buffers :: "(string + byte list) list \<Rightarrow> string + byte list" where
  "concat_buffers [] = Inr []"
| "concat_buffers (Inl e # bs) = Inl e"
| "concat_buffers (Inr b # bs) = (case concat_buffers bs of Inl e \<Rightarrow> Inl e | Inr r \<Rightarrow> Inr (b @ r))"

text \<open>\<^verbatim>\<open>sellData\<close> (lines 181-185) for given \<^verbatim>\<open>tokenAmountLamports\<close> and
  \<^verbatim>\<open>minSolOutLamports\<close>; the fields of a 24-byte buy or sell payload read back.\<close>

definition sellData :: "int \<Rightarrow> int \<Rightarrow> string + byte list" where
  "sellData tokenAmountLamports minSolOutLamports =
     concat_buffers [bufferFromUInt64 sell_discriminator,
                     bufferFromUInt64 tokenAmountLamports,
                     bufferFromUInt64 minSolOutLamports]"

definition payload_discriminator :: "byte list \<Rightarrow> nat" where
  "payload_discriminator d = le_value (take 8 d)"
definition payload_amount :: "byte list \<Rightarrow> nat" where
  "payload_amount d = le_value (take 8 (drop 8 d))"
definition payload_limit :: "byte list \<Rightarrow> nat" where
  "payload_limit d = le_value (take 8 (drop 16 d))"

section \<open>Network environment and effects\<close>

text \<open>
  Everything \<^verbatim>\<open>sellToken\<close> and \<^verbatim>\<open>launchToken\<close> obtain from outside is a field of the
  environment; a call that throws answers \<open>Inl\<close> with the error's message. The calls that
  reach the network are logged, in order, as effects. \<^verbatim>\<open>createTransaction\<close> followed by
  \<^verbatim>\<open>sendAndConfirmTransactionWrapper\<close> (both of utils.ts, missing) is the single call
  \<open>sendAndConfirmTransaction\<close>: endpoint, instruction list, fee payer, signers; it answers
  the signature, or nothing.
  JavaScript numbers are modelled by rationals (NaN and the infinities are left out, and
  arithmetic is exact), strings by their bytes.
\<close>

record TxMeta =
  preBalances :: "int list"
  postBalances :: "int list"

record ParsedTx =
  accountKeys :: "pubkey list"
  meta :: "TxMeta option"

datatype privateKey = KeyString string | KeypairObject pubkey

datatype effect =
    GetAccountInfo string pubkey
  | GetTokenAccountBalance string pubkey
  | SendTransaction string "instruction list" pubkey "pubkey list"
  | GetParsedTransaction string string
  | Wait nat

record env =
  newConnection :: "string \<Rightarrow> string + unit"
  getKeyPairFromPrivateKey :: "string \<Rightarrow> string + pubkey"
  keypairFromSecretKey :: "string \<Rightarrow> string + pubkey"
  validPublicKey :: "string \<Rightarrow> bool"
  generate :: pubkey
  toBuffer :: "pubkey \<Rightarrow> byte list"
  getAccountInfo :: "string \<Rightarrow> pubkey \<Rightarrow> nat \<Rightarrow> string + bool"
  getTokenAccountBalance :: "string \<Rightarrow> pubkey \<Rightarrow> string + 64 word"
  sendAndConfirmTransaction ::
    "string \<Rightarrow> instruction list \<Rightarrow> pubkey \<Rightarrow> pubkey list \<Rightarrow> string + string option"
  getParsedTransaction :: "string \<Rightarrow> string \<Rightarrow> string + ParsedTx option"

type_synonym 'a io = "(string + 'a) \<times> effect list"

definition ret :: "'a \<Rightarrow> 'a io" where
  "ret x = (Inr x, [])"

definition throw :: "string \<Rightarrow> 'a io" where
  "throw m = (Inl m, [])"

definition lift :: "string + 'a \<Rightarrow> 'a io" where
  "lift r = (r, [])"

definition call :: "effect \<Rightarrow> string + 'a \<Rightarrow> 'a io" where
  "call e r = (r, [e])"

definition bind :: "'a io \<Rightarrow> ('a \<Rightarrow> 'b io) \<Rightarrow> 'b io" where
  "bind m f =
     (case m of
        (Inl e, es) \<Rightarrow> (Inl e, es)
      | (Inr x, es) \<Rightarrow> (case f x of (r, es') \<Rightarrow> (r, es @ es')))"

definition default_rpc :: string where
  "default_rpc = ''https://api.mainnet-beta.solana.com''"

definition mainnet_beta :: string where
  \<comment> \<open>\<^verbatim>\<open>web3.clusterApiUrl('mainnet-beta')\<close>\<close>
  "mainnet_beta = ''https://api.mainnet-beta.solana.com''"

definition endpoint :: "string option \<Rightarrow> string" where
  \<comment> \<open>\<^verbatim>\<open>rpcUrl || 'https://api.mainnet-beta.solana.com'\<close>\<close>
  "endpoint rpcUrl = (case rpcUrl of None \<Rightarrow> default_rpc | Some u \<Rightarrow> if u = [] then default_rpc else u)"

definition newPublicKey :: "env \<Rightarrow> string \<Rightarrow> string + pubkey" where
  "newPublicKey env s = (if validPublicKey env s then Inr (Base58 s) else Inl ''Invalid public key input'')"

definition message :: "string \<Rightarrow> string" where
  \<comment> \<open>\<^verbatim>\<open>error.message || 'Unknown error occurred'\<close>\<close>
  "message m = (if m = [] then ''Unknown error occurred'' else m)"

section \<open>sellToken (src/src/sell.ts, first document)\<close>

record SellConfig =
  tokenMint :: string
  tokenAmount :: rat
  minSolOut :: rat
  slippage :: rat
  priorityFee :: rat

datatype SellResult =
    SellSucceeded (signature: string) (solReceived: rat)
  | SellFailed (error: string)

definition validateSellConfig :: "SellConfig \<Rightarrow> string + bool" where
  "validateSellConfig config =
     (if tokenMint config = [] then Inl ''Token mint address is required''
      else if tokenAmount config = 0 \<or> tokenAmount config \<le> 0
        then Inl ''Token amount must be greater than 0''
      else if minSolOut config < 0 then Inl ''Minimum SOL output must be non-negative''
      else if slippage config < 0 \<or> slippage config > 100
        then Inl ''Slippage must be between 0 and 100''
      else if priorityFee config < 0 then Inl ''Priority fee must be non-negative''
      else Inr True)"

definition maxRetries :: nat where
  "maxRetries = 5"

definition retryDelay :: nat where
  "retryDelay = 2000"

text \<open>The polling loop of lines 63-72; the result is whether \<^verbatim>\<open>tokenMintAccountInfo\<close> is set.\<close>

function pollTokenMint :: "env \<Rightarrow> string \<Rightarrow> pubkey \<Rightarrow> nat \<Rightarrow> bool io" where
  "pollTokenMint env url mint retryCount =
     (if retryCount < maxRetries then
        bind (call (GetAccountInfo url mint) (getAccountInfo env url mint retryCount))
          (\<lambda>tokenMintAccountInfo.
             if tokenMintAccountInfo then ret True
             else bind (if retryCount + 1 < maxRetries then (Inr (), [Wait retryDelay]) else ret ())
                    (\<lambda>_. pollTokenMint env url mint (retryCount + 1)))
      else ret False)"
  by pat_completeness auto
termination
  by (relation "measure (\<lambda>(env, url, mint, retryCount). maxRetries - retryCount)") auto

declare pollTokenMint.simps [simp del]

definition findIndex :: "('a \<Rightarrow> bool) \<Rightarrow> 'a list \<Rightarrow> nat option" where
  "findIndex P xs = (case filter (\<lambda>i. P (xs ! i)) [0..<length xs] of [] \<Rightarrow> None | i # _ \<Rightarrow> Some i)"

definition at_index :: "'a list \<Rightarrow> nat \<Rightarrow> 'a option" where
  \<comment> \<open>\<^verbatim>\<open>xs[i]\<close>, undefined out of range\<close>
  "at_index xs i = (if i < length xs then Some (xs ! i) else None)"

text \<open>
  The settlement computation of lines 203-232: \<^verbatim>\<open>actualSolReceived\<close> from the answer of
  \<^verbatim>\<open>getParsedTransaction\<close>. A thrown error is caught and leaves 0; an undefined balance makes
  \<^verbatim>\<open>diff\<close> NaN, and \<^verbatim>\<open>NaN > 0\<close> is false.
\<close>

definition actualSolReceived :: "string + ParsedTx option \<Rightarrow> pubkey \<Rightarrow> rat" where
  "actualSolReceived answer owner =
     (case answer of
        Inl err \<Rightarrow> 0
      | Inr None \<Rightarrow> 0
      | Inr (Some txInfo) \<Rightarrow>
          (case meta txInfo of
             None \<Rightarrow> 0
           | Some m \<Rightarrow>
               (case findIndex (\<lambda>key. key = owner) (accountKeys txInfo) of
                  None \<Rightarrow> 0
                | Some accountIndex \<Rightarrow>
                    (case (at_index (preBalances m) accountIndex, at_index (postBalances m) accountIndex) of
                       (Some preBalance, Some postBalance) \<Rightarrow>
                         (let diff = postBalance - preBalance
                          in if diff > 0 then of_int diff / 1000000000 else 0)
                     | _ \<Rightarrow> 0))))"

definition sellInstructions :: "pubkey \<Rightarrow> pubkey \<Rightarrow> byte list \<Rightarrow> instruction list" where
  "sellInstructions mint owner d =
     [SetComputeUnitLimit 100000, SetComputeUnitPrice 1000,
      TransactionInstruction (sellKeys mint owner) PUMP_FUN_PROGRAM d]"

text \<open>Lines 197-244: what is returned once \<^verbatim>\<open>sendAndConfirmTransactionWrapper\<close> has answered.\<close>

definition sell_settle :: "env \<Rightarrow> string \<Rightarrow> pubkey \<Rightarrow> int \<Rightarrow> string option \<Rightarrow> SellResult io" where
  "sell_settle env url owner minSolOutLamports sig =
     (case sig of
        None \<Rightarrow> ret (SellFailed ''Transaction failed to confirm'')
      | Some s \<Rightarrow>
          if s = [] then ret (SellFailed ''Transaction failed to confirm'')
          else
            (let received = actualSolReceived (getParsedTransaction env url s) owner
             in (Inr (SellSucceeded s (if received \<noteq> 0 then received
                                       else of_int minSolOutLamports / 1000000000)),
                 [Wait 2000, GetParsedTransaction url s])))"

text \<open>Lines 133-195: the balance is read, the instructions are built and submitted.\<close>

definition sell_submit :: "env \<Rightarrow> string \<Rightarrow> pubkey \<Rightarrow> pubkey \<Rightarrow> SellResult io" where
  "sell_submit env url mint owner =
     (let userTokenAccount = AssociatedTokenAddress mint owner in
      bind (lift (newConnection env mainnet_beta)) (\<lambda>_.
      bind (call (GetTokenAccountBalance mainnet_beta userTokenAccount)
                 (getTokenAccountBalance env mainnet_beta userTokenAccount)) (\<lambda>actualTokenAmount.
      let tokenAmountLamports = uint actualTokenAmount; minSolOutLamports = 0 in
      bind (lift (sellData tokenAmountLamports minSolOutLamports)) (\<lambda>d.
      let instructions = sellInstructions mint owner d in
      bind (call (SendTransaction url instructions owner [owner])
                 (sendAndConfirmTransaction env url instructions owner [owner]))
           (sell_settle env url owner minSolOutLamports)))))"

text \<open>Lines 41-77: connection, key pair, validation, and the wait for the mint account.\<close>

definition sell_prepare :: "env \<Rightarrow> SellConfig \<Rightarrow> privateKey \<Rightarrow> string \<Rightarrow> (pubkey \<times> pubkey) io" where
  "sell_prepare env config privKey url =
     bind (lift (newConnection env url)) (\<lambda>_.
     bind (lift (case privKey of KeyString k \<Rightarrow> getKeyPairFromPrivateKey env k
                              | KeypairObject owner \<Rightarrow> Inr owner)) (\<lambda>owner.
     bind (lift (validateSellConfig (config\<lparr>tokenAmount := 1\<rparr>))) (\<lambda>_.
     bind (lift (newPublicKey env (tokenMint config))) (\<lambda>mint.
     bind (pollTokenMint env url mint 0) (\<lambda>tokenMintAccountInfo.
       if \<not> tokenMintAccountInfo
       then throw (''Token mint '' @ tokenMint config @ '' does not exist after 5 attempts'')
       else ret (mint, owner))))))"

definition sell_body :: "env \<Rightarrow> SellConfig \<Rightarrow> privateKey \<Rightarrow> string option \<Rightarrow> SellResult io" where
  "sell_body env config privKey rpcUrl =
     (let url = endpoint rpcUrl in
      bind (sell_prepare env config privKey url) (\<lambda>(mint, owner). sell_submit env url mint owner))"

definition sellToken :: "env \<Rightarrow> SellConfig \<Rightarrow> privateKey \<Rightarrow> string option \<Rightarrow> SellResult \<times> effect list" where
  "sellToken env config privKey rpcUrl =
     (case sell_body env config privKey rpcUrl of
        (Inl e, es) \<Rightarrow> (SellFailed (message e), es)
      | (Inr r, es) \<Rightarrow> (r, es))"

section \<open>launchToken and validateTokenConfig (src/src/sell.ts, second document)\<close>

text \<open>
  \<^verbatim>\<open>TokenLaunchConfig\<close> of src/src/index.ts. An optional field that is absent is \<open>None\<close>.
  The fields \<^verbatim>\<open>slippage\<close> and \<^verbatim>\<open>priorityFee\<close> carry the prefix \<open>launch\<close> here, since
  \<open>SellConfig\<close> holds the plain names.
\<close>

record TokenLaunchConfig =
  name :: string
  symbol :: string
  mintKeypair :: "pubkey option"
  metadataUrl :: string
  initialBuy :: "rat option"
  launchSlippage :: "rat option"
  launchPriorityFee :: "rat option"

datatype TokenLaunchResult =
    Launched (launchSignature: string) (tokenAddress: pubkey)
  | LaunchFailed (launchError: string)

definition is_space :: "char \<Rightarrow> bool" where
  "is_space c = (c \<in> set [CHR '' '', CHR 0x09, CHR 0x0A, CHR 0x0B, CHR 0x0C, CHR 0x0D])"

definition trim :: "string \<Rightarrow> string" where
  "trim s = rev (dropWhile is_space (rev (dropWhile is_space s)))"

definition validateTokenConfig :: "TokenLaunchConfig \<Rightarrow> string + bool" where
  "validateTokenConfig config =
     (if name config = [] \<or> length (trim (name config)) = 0 then Inl ''Token name is required''
      else if symbol config = [] \<or> length (trim (symbol config)) = 0
        then Inl ''Token symbol is required''
      else if length (symbol config) > 10 then Inl ''Token symbol must be 10 characters or less''
      else if (case initialBuy config of None \<Rightarrow> False | Some b \<Rightarrow> b \<noteq> 0 \<and> b < 0)
        then Inl ''Initial buy amount must be positive''
      else if (case launchSlippage config of None \<Rightarrow> False | Some sl \<Rightarrow> sl \<noteq> 0 \<and> (sl < 0 \<or> sl > 100))
        then Inl ''Slippage must be between 0 and 100''
      else Inr True)"

text \<open>
  Lines 431-512, the branch taken when an initial buy is requested. \<^verbatim>\<open>new BN(solInLamports)\<close>
  and \<^verbatim>\<open>Math.floor\<close> are the floor of the exact product.
\<close>

definition launch_buy :: "env \<Rightarrow> string \<Rightarrow> pubkey \<Rightarrow> pubkey \<Rightarrow> rat \<Rightarrow> rat \<Rightarrow> instruction list io" where
  "launch_buy env url mint owner initBuy slip =
     (let tokenAccount = AssociatedTokenAddress mint owner in
      bind (call (GetAccountInfo url tokenAccount) (getAccountInfo env url tokenAccount 0))
        (\<lambda>tokenAccountInfo.
      let ata = (if tokenAccountInfo then []
                 else [CreateAssociatedTokenAccount owner tokenAccount owner mint]);
          solInLamports = initBuy * 1000000000 in
      bind (lift (case launch_tokenOut \<lfloor>solInLamports\<rfloor> of
                    Inl InvalidReserves \<Rightarrow> Inl ''InvalidReserves''
                  | Inr t \<Rightarrow> Inr t)) (\<lambda>tokenOut.
      let solInWithSlippage = initBuy * (1 + slip / 100);
          maxSolCost = \<lfloor>solInWithSlippage * 1000000000\<rfloor> in
      bind (lift (concat_buffers [bufferFromUInt64 buy_discriminator,
                                  bufferFromUInt64 tokenOut,
                                  bufferFromUInt64 maxSolCost])) (\<lambda>buyData.
      ret (ata @ [TransactionInstruction (buyKeys mint owner) PUMP_FUN_PROGRAM buyData])))))"

definition launch_send :: "env \<Rightarrow> string \<Rightarrow> pubkey \<Rightarrow> pubkey \<Rightarrow> instruction list \<Rightarrow> TokenLaunchResult io" where
  "launch_send env url mint owner instructions =
     bind (call (SendTransaction url instructions owner [owner, mint])
                (sendAndConfirmTransaction env url instructions owner [owner, mint]))
       (\<lambda>sig. case sig of
                None \<Rightarrow> ret (LaunchFailed ''Transaction failed to confirm'')
              | Some s \<Rightarrow> if s = [] then ret (LaunchFailed ''Transaction failed to confirm'')
                          else ret (Launched s mint))"

text \<open>Lines 332-512: defaults, mint, and the instruction list.\<close>

definition launch_build :: "env \<Rightarrow> string \<Rightarrow> TokenLaunchConfig \<Rightarrow> pubkey \<Rightarrow> (pubkey \<times> instruction list) io" where
  "launch_build env url config owner =
     (let initBuy = (case initialBuy config of None \<Rightarrow> 0 | Some v \<Rightarrow> v);
          slip = (case launchSlippage config of None \<Rightarrow> 5 | Some v \<Rightarrow> v);
          fee = (case launchPriorityFee config of None \<Rightarrow> 1 / 1000 | Some v \<Rightarrow> v);
          mint = (case mintKeypair config of None \<Rightarrow> generate env | Some m \<Rightarrow> m);
          budget = (if fee > 0
                    then [SetComputeUnitLimit 300000,
                          SetComputeUnitPrice \<lfloor>fee / 3 * 1000000000\<rfloor>]
                    else []) in
      bind (lift (concat_buffers [Inr create_discriminator,
                                  bufferFromString (name config),
                                  bufferFromString (symbol config),
                                  bufferFromString (metadataUrl config),
                                  Inr (toBuffer env owner)])) (\<lambda>d.
      bind (if initBuy \<noteq> 0 \<and> initBuy > 0 then launch_buy env url mint owner initBuy slip
            else ret []) (\<lambda>buy.
      ret (mint, budget @ [TransactionInstruction (createKeys mint owner) PUMP_FUN_PROGRAM d] @ buy))))"

definition launch_body :: "env \<Rightarrow> TokenLaunchConfig \<Rightarrow> privateKey \<Rightarrow> string option \<Rightarrow> TokenLaunchResult io" where
  "launch_body env config privKey rpcUrl =
     (if name config = [] \<or> symbol config = [] \<or> metadataUrl config = []
      then throw ''Token name and symbol are required''
      else
       (let url = endpoint rpcUrl in
        bind (lift (newConnection env url)) (\<lambda>_.
        bind (lift (case privKey of
                      KeyString k \<Rightarrow> (case keypairFromSecretKey env k of
                                         Inr kp \<Rightarrow> Inr kp
                                       | Inl _ \<Rightarrow> getKeyPairFromPrivateKey env k)
                    | KeypairObject kp \<Rightarrow> Inr kp)) (\<lambda>owner.
        bind (launch_build env url config owner) (\<lambda>(mint, instructions).
        launch_send env url mint owner instructions)))))"

definition launchToken ::
  "env \<Rightarrow> TokenLaunchConfig \<Rightarrow> privateKey \<Rightarrow> string option \<Rightarrow> TokenLaunchResult \<times> effect list" where
  "launchToken env config privKey rpcUrl =
     (case launch_body env config privKey rpcUrl of
        (Inl e, es) \<Rightarrow> (LaunchFailed (message e), es)
      | (Inr r, es) \<Rightarrow> (r, es))"


definition orchestrator_sellConfig :: "string \<Rightarrow> SellConfig" where
  "orchestrator_sellConfig address =
     \<lparr>tokenMint = address, tokenAmount = 0, minSolOut = 4 / 100, slippage = 5,
      priorityFee = 1 / 10000\<rparr>"

section \<open>The launch queue (src/src/services/queueManager.ts)\<close>

text \<open>
  \<^verbatim>\<open>LaunchResult\<close> of src/src/orchestrator.ts, reduced to the two fields the queue reads.
  The awaited call \<^verbatim>\<open>orchestrator.launchTokenFromTweet(tweetId)\<close> either resolves with such
  a result or rejects, which is what the \<^verbatim>\<open>catch\<close> of lines 156-159 receives.
\<close>

record LaunchResult =
  success :: bool
  solSpent :: "rat option"

datatype settled = Resolved LaunchResult | Rejected

text \<open>The fields of class \<^verbatim>\<open>QueueManager\<close> (lines 22-44); times are milliseconds.\<close>

record QueueManager =
  queue :: "string list"
  processing :: bool
  paused :: bool
  launchesThisHour :: int
  hourlyLimit :: int
  hourResetTime :: int
  budgetUsed :: rat
  budgetLimit :: rat
  budgetResetTime :: int
  launchDelaySeconds :: int
  totalProcessed :: int
  totalFailed :: int

text \<open>The record \<^verbatim>\<open>saveQueue\<close> writes to queue.json (lines 253-262).\<close>

record QueueFile =
  file_queue :: "string list"
  file_launchesThisHour :: int
  file_hourResetTime :: int
  file_budgetUsed :: rat
  file_budgetResetTime :: int
  file_totalProcessed :: int
  file_totalFailed :: int
  file_lastSaved :: int

text \<open>
  \<^verbatim>\<open>processQueue\<close> is an asynchronous function: between two \<^verbatim>\<open>await\<close>s it runs without
  interruption, and at an \<^verbatim>\<open>await\<close> it is suspended, either in \<^verbatim>\<open>sleep\<close> (until the
  given instant) or in the call of the orchestrator for a tweet id. What it does to the
  outside is logged, newest entry first: a write of queue.json (with the record written
  and whether \<^verbatim>\<open>writeFileSync\<close> succeeded; a failure is caught and printed by
  \<^verbatim>\<open>saveQueue\<close>), a call of \<^verbatim>\<open>launchTokenFromTweet\<close> (with the manager's fields at the
  moment of the call), and a sleep (with its duration).
\<close>

datatype suspended = NotRunning | Sleeping int | Launching string

datatype queue_effect =
    SaveQueue QueueFile bool
  | Dispatch string QueueManager
  | Sleep int

record world =
  qm :: QueueManager
  loop :: suspended
  clock :: int
  disk :: "QueueFile option"
  log :: "queue_effect list"

definition snapshot :: "int \<Rightarrow> QueueManager \<Rightarrow> QueueFile" where
  "snapshot now q =
     \<lparr>file_queue = queue q, file_launchesThisHour = launchesThisHour q,
      file_hourResetTime = hourResetTime q, file_budgetUsed = budgetUsed q,
      file_budgetResetTime = budgetResetTime q, file_totalProcessed = totalProcessed q,
      file_totalFailed = totalFailed q, file_lastSaved = now\<rparr>"

definition saveQueue :: "int \<Rightarrow> bool \<Rightarrow> world \<Rightarrow> world" where
  "saveQueue now ok w =
     w\<lparr>disk := (if ok then Some (snapshot now (qm w)) else disk w),
       log := SaveQueue (snapshot now (qm w)) ok # log w\<rparr>"

definition loadQueue :: "QueueFile option \<Rightarrow> QueueManager \<Rightarrow> QueueManager" where
  \<comment> \<open>lines 273-291, for a file as \<^verbatim>\<open>saveQueue\<close> writes it; no file, or an unreadable one,
      leaves the fields as they are\<close>
  "loadQueue file q =
     (case file of
        None \<Rightarrow> q
      | Some f \<Rightarrow> q\<lparr>queue := file_queue f, launchesThisHour := file_launchesThisHour f,
                    hourResetTime := file_hourResetTime f, budgetUsed := file_budgetUsed f,
                    budgetResetTime := file_budgetResetTime f,
                    totalProcessed := file_totalProcessed f, totalFailed := file_totalFailed f\<rparr>)"

text \<open>
  The constructor (lines 46-64). \<open>midnight now\<close> is the instant \<^verbatim>\<open>setHours(24, 0, 0, 0)\<close>
  gives for a date created at \<open>now\<close>: it depends on the time zone of the process and is
  a parameter throughout.
\<close>

definition construct :: "(int \<Rightarrow> int) \<Rightarrow> int \<Rightarrow> int \<Rightarrow> rat \<Rightarrow> int \<Rightarrow> QueueFile option \<Rightarrow> world" where
  "construct midnight now hourly budget delay file =
     \<lparr>qm = loadQueue file
             \<lparr>queue = [], processing = False, paused = False, launchesThisHour = 0,
              hourlyLimit = hourly, hourResetTime = now + 3600000, budgetUsed = 0,
              budgetLimit = budget, budgetResetTime = midnight now,
              launchDelaySeconds = delay, totalProcessed = 0, totalFailed = 0\<rparr>,
      loop = NotRunning, clock = now, disk = file, log = []\<rparr>"

definition checkAndResetCounters :: "(int \<Rightarrow> int) \<Rightarrow> int \<Rightarrow> QueueManager \<Rightarrow> QueueManager" where
  "checkAndResetCounters midnight now q =
     (let q1 = (if now \<ge> hourResetTime q
                then q\<lparr>launchesThisHour := 0, hourResetTime := now + 3600000\<rparr> else q)
      in if now \<ge> budgetResetTime q1
         then q1\<lparr>budgetUsed := 0, budgetResetTime := midnight now\<rparr> else q1)"

definition sleep :: "int \<Rightarrow> int \<Rightarrow> world \<Rightarrow> world" where
  \<comment> \<open>\<^verbatim>\<open>await this.sleep(ms)\<close>: the timer cannot fire before \<open>ms\<close> have passed\<close>
  "sleep now ms w = w\<lparr>loop := Sleeping (now + max 0 ms), log := Sleep ms # log w\<rparr>"

text \<open>One pass from the test of the \<^verbatim>\<open>while\<close> (line 107) to the next \<^verbatim>\<open>await\<close>, or out of
  the loop (lines 168-169).\<close>

definition loop_head :: "(int \<Rightarrow> int) \<Rightarrow> int \<Rightarrow> bool \<Rightarrow> world \<Rightarrow> world" where
  "loop_head midnight now ok w =
     (case queue (qm w) of
        [] \<Rightarrow> w\<lparr>qm := (qm w)\<lparr>processing := False\<rparr>, loop := NotRunning\<rparr>
      | tweetId # rest \<Rightarrow>
          if paused (qm w) then w\<lparr>qm := (qm w)\<lparr>processing := False\<rparr>, loop := NotRunning\<rparr>
          else
            (let q = checkAndResetCounters midnight now (qm w) in
             if launchesThisHour q \<ge> hourlyLimit q
             then sleep now (min (hourResetTime q - now) 300000) (w\<lparr>qm := q\<rparr>)
             else if budgetUsed q \<ge> budgetLimit q
             then sleep now (min (budgetResetTime q - now) 300000) (w\<lparr>qm := q\<rparr>)
             else
               (let w1 = saveQueue now ok (w\<lparr>qm := q\<lparr>queue := rest\<rparr>\<rparr>)
                in w1\<lparr>loop := Launching tweetId, log := Dispatch tweetId (qm w1) # log w1\<rparr>)))"

text \<open>Lines 138-159: the counters after the awaited call has settled.\<close>

definition record_outcome :: "settled \<Rightarrow> QueueManager \<Rightarrow> QueueManager" where
  "record_outcome outcome q =
     (case outcome of
        Resolved result \<Rightarrow>
          (let q1 = q\<lparr>launchesThisHour := launchesThisHour q + 1,
                      totalProcessed := totalProcessed q + 1\<rparr>
           in if success result
              then (case solSpent result of
                      None \<Rightarrow> q1
                    | Some spent \<Rightarrow> if spent \<noteq> 0 then q1\<lparr>budgetUsed := budgetUsed q1 + spent\<rparr>
                                    else q1)
              else q1\<lparr>totalFailed := totalFailed q1 + 1\<rparr>)
      | Rejected \<Rightarrow> q\<lparr>totalFailed := totalFailed q + 1\<rparr>)"

text \<open>Lines 138-166: from the settling of the call to the next \<^verbatim>\<open>await\<close>.\<close>

definition after_launch :: "(int \<Rightarrow> int) \<Rightarrow> int \<Rightarrow> bool \<Rightarrow> settled \<Rightarrow> world \<Rightarrow> world" where
  "after_launch midnight now ok outcome w =
     (let q = record_outcome outcome (qm w); w1 = w\<lparr>qm := q\<rparr>
      in if queue q \<noteq> [] \<and> launchDelaySeconds q > 0
         then sleep now (launchDelaySeconds q * 1000) w1
         else loop_head midnight now ok w1)"

definition processQueue :: "(int \<Rightarrow> int) \<Rightarrow> int \<Rightarrow> bool \<Rightarrow> world \<Rightarrow> world" where
  "processQueue midnight now ok w =
     (if processing (qm w) then w
      else if paused (qm w) then w
      else loop_head midnight now ok (w\<lparr>qm := (qm w)\<lparr>processing := True\<rparr>\<rparr>))"

definition addToQueue :: "(int \<Rightarrow> int) \<Rightarrow> int \<Rightarrow> bool \<Rightarrow> string \<Rightarrow> world \<Rightarrow> world" where
  "addToQueue midnight now ok tweetId w =
     (if tweetId \<in> set (queue (qm w)) then w
      else
        (let w1 = saveQueue now ok (w\<lparr>qm := (qm w)\<lparr>queue := queue (qm w) @ [tweetId]\<rparr>\<rparr>)
         in if \<not> processing (qm w1) \<and> \<not> paused (qm w1) then processQueue midnight now ok w1
            else w1))"

definition pauseQueue :: "world \<Rightarrow> world" where
  "pauseQueue w = w\<lparr>qm := (qm w)\<lparr>paused := True\<rparr>\<rparr>"

definition resumeQueue :: "(int \<Rightarrow> int) \<Rightarrow> int \<Rightarrow> bool \<Rightarrow> world \<Rightarrow> world" where
  "resumeQueue midnight now ok w =
     (let w1 = w\<lparr>qm := (qm w)\<lparr>paused := False\<rparr>\<rparr>
      in if queue (qm w1) \<noteq> [] \<and> \<not> processing (qm w1) then processQueue midnight now ok w1
         else w1)"

definition clearQueue :: "int \<Rightarrow> bool \<Rightarrow> world \<Rightarrow> world" where
  "clearQueue now ok w = saveQueue now ok (w\<lparr>qm := (qm w)\<lparr>queue := []\<rparr>\<rparr>)"

text \<open>
  What can happen to a queue manager: a call of one of its public methods, the timer of a
  pending \<^verbatim>\<open>sleep\<close> firing, or the pending call of the orchestrator settling. A turn says
  when it happens (\<^verbatim>\<open>Date.now()\<close> during the turn) and whether queue.json can be written
  during it. A turn that cannot happen in the current state (time running backwards, a
  timer firing early or with no sleep pending, a call settling that was never made) is
  skipped.
\<close>

datatype occurrence =
    AddToQueue string
  | ProcessQueue
  | PauseQueue
  | ResumeQueue
  | ClearQueue
  | TimerFired
  | LaunchSettled settled

type_synonym turn = "int \<times> bool \<times> occurrence"

fun step :: "(int \<Rightarrow> int) \<Rightarrow> world \<Rightarrow> turn \<Rightarrow> world" where
  "step midnight w (now, ok, occ) =
     (if now < clock w then w
      else
        (let w0 = w\<lparr>clock := now\<rparr> in
         case occ of
           AddToQueue tweetId \<Rightarrow> addToQueue midnight now ok tweetId w0
         | ProcessQueue \<Rightarrow> processQueue midnight now ok w0
         | PauseQueue \<Rightarrow> pauseQueue w0
         | ResumeQueue \<Rightarrow> resumeQueue midnight now ok w0
         | ClearQueue \<Rightarrow> clearQueue now ok w0
         | TimerFired \<Rightarrow>
             (case loop w of
                Sleeping wake \<Rightarrow> if wake \<le> now then loop_head midnight now ok w0 else w
              | _ \<Rightarrow> w)
         | LaunchSettled outcome \<Rightarrow>
             (case loop w of
                Launching tweetId \<Rightarrow> after_launch midnight now ok outcome w0
              | _ \<Rightarrow> w)))"

definition run :: "(int \<Rightarrow> int) \<Rightarrow> world \<Rightarrow> turn list \<Rightarrow> world" where
  "run midnight w turns = foldl (step midnight) w turns"

definition history :: "world \<Rightarrow> queue_effect list" where
  \<comment> \<open>the log, oldest entry first\<close>
  "history w = rev (log w)"

subsection \<open>Reading the log\<close>

text \<open>
  Predicates on the log (newest entry first). \<open>guarded\<close>: every call of the orchestrator
  is directly preceded by a write of queue.json whose record holds the pending list as it
  is in memory at the call, and the id of the call is not on that list. \<open>last_written\<close>:
  what queue.json holds after the writes of the log, given what it held before.
  \<open>within_limits\<close>: a call is made with the hourly counter below the hourly limit and the
  budget counter below the budget limit. \<open>dispatched\<close>: the ids of the calls.
\<close>

fun guarded :: "queue_effect list \<Rightarrow> bool" where
  "guarded [] = True"
| "guarded (Dispatch tweetId q # es) =
     ((case es of
         SaveQueue f ok # _ \<Rightarrow> file_queue f = queue q \<and> tweetId \<notin> set (queue q)
       | _ \<Rightarrow> False)
      \<and> guarded es)"
| "guarded (SaveQueue f ok # es) = guarded es"
| "guarded (Sleep ms # es) = guarded es"

fun last_written :: "QueueFile option \<Rightarrow> queue_effect list \<Rightarrow> QueueFile option" where
  "last_written d [] = d"
| "last_written d (SaveQueue f ok # es) = (if ok then Some f else last_written d es)"
| "last_written d (Dispatch tweetId q # es) = last_written d es"
| "last_written d (Sleep ms # es) = last_written d es"

definition consistent :: "QueueFile option \<Rightarrow> world \<Rightarrow> bool" where
  "consistent d0 w =
     (distinct (queue (qm w)) \<and> guarded (log w) \<and> disk w = last_written d0 (log w))"

fun within_limits :: "queue_effect \<Rightarrow> bool" where
  "within_limits (Dispatch tweetId q) =
     (launchesThisHour q < hourlyLimit q \<and> budgetUsed q < budgetLimit q)"
| "within_limits (SaveQueue f ok) = True"
| "within_limits (Sleep ms) = True"

fun dispatched :: "queue_effect list \<Rightarrow> string list" where
  "dispatched [] = []"
| "dispatched (Dispatch tweetId q # es) = tweetId # dispatched es"
| "dispatched (SaveQueue f ok # es) = dispatched es"
| "dispatched (Sleep ms # es) = dispatched es"

text \<open>
  Concrete runs. The time zone is UTC; the manager is constructed at instant 0 with no
  queue file, an hourly limit of 2, a budget of 1 and a delay of 120 seconds, so its
  first hour ends at 3600000. Three ids are enqueued; in \<open>rate_turns\<close> the first two
  calls resolve (one success, one reported failure) and the loop then finds the counter
  at the limit. In \<open>unwritable_turns\<close> (hourly limit 10) the queue is paused, an id is
  enqueued and written to queue.json, and the queue is resumed while queue.json cannot be
  written.
\<close>

definition utc_midnight :: "int \<Rightarrow> int" where
  "utc_midnight now = (now div 86400000 + 1) * 86400000"

definition rate_start :: world where
  "rate_start = construct utc_midnight 0 2 1 120 None"

definition rate_turns :: "turn list" where
  "rate_turns =
     [(1000, True, AddToQueue ''a''), (2000, True, AddToQueue ''b''), (3000, True, AddToQueue ''c''),
      (1700000, True, LaunchSettled (Resolved \<lparr>success = True, solSpent = Some (102 / 10000)\<rparr>)),
      (1820000, True, TimerFired),
      (3000000, True, LaunchSettled (Resolved \<lparr>success = False, solSpent = None\<rparr>)),
      (3120000, True, TimerFired)]"

definition unwritable_start :: world where
  "unwritable_start = construct utc_midnight 0 10 1 120 None"

definition unwritable_turns :: "turn list" where
  "unwritable_turns =
     [(1000, True, PauseQueue), (2000, True, AddToQueue ''a''), (3000, False, ResumeQueue)]"

section \<open>launchTokenFromTweet (src/src/orchestrator.ts)\<close>

text \<open>
  The call the queue awaits. Its collaborators (database, image store, AI, IPFS, metadata
  generator) are fields of \<open>services\<close>; a collaborator that throws answers \<open>Inl\<close> with
  the message. \<^verbatim>\<open>launchToken\<close> and \<^verbatim>\<open>sellToken\<close> are the functions modelled above; they
  return a result and never throw. Of \<^verbatim>\<open>Tweet\<close>, \<^verbatim>\<open>TokenSuggestion\<close>,
  \<^verbatim>\<open>IPFSUploadResult\<close> and \<^verbatim>\<open>LaunchedTokenData\<close> the fields the function reads or
  writes are kept; a metadata document is opaque.
\<close>

record Tweet =
  username :: string
  content :: string
  images :: "string list"
  all_related_images :: "string list option"
  coin_launched :: bool
  contract_address :: string


record IPFSUploadResult =
  ipfs_hash :: string
  ipfs_url :: string









section \<open>The account-list schema of the specification\<close>

text \<open>
  Section 6 of the specification names, for each kind of instruction, the accounts in
  order with their signer and writable flags. The schema is written down here as the
  specification has it, to be compared with the lists the code builds; \<open>resolve\<close> says
  which address plays a role for a given mint and owner.
\<close>

datatype kind = Create | Buy | Sell

datatype role =
    GlobalConfig | FeeRecipient | Mint | BondingCurve | AssociatedBondingCurve
  | UserTokenAccount | Owner | SystemProgram | CreatorVault | TokenProgram | EventAuthority
  | ProgramId | GlobalVolumeAccumulator | UserVolumeAccumulator | FeeConfig | FeeProgram
  | MintAuthority | MetadataProgram | Metadata | AssociatedTokenProgram | RentSysvar
  | ProgramAccount

fun resolve :: "kind \<Rightarrow> pubkey \<Rightarrow> pubkey \<Rightarrow> role \<Rightarrow> pubkey" where
  "resolve k mint owner GlobalConfig = GLOBAL"
| "resolve k mint owner FeeRecipient = (if k = Sell then sell_feeRecipient else buy_feeRecipient)"
| "resolve k mint owner Mint = mint"
| "resolve k mint owner BondingCurve = bondingCurve mint"
| "resolve k mint owner AssociatedBondingCurve = associatedBondingCurve mint"
| "resolve k mint owner UserTokenAccount = AssociatedTokenAddress mint owner"
| "resolve k mint owner Owner = owner"
| "resolve k mint owner SystemProgram = SYSTEM_PROGRAM"
| "resolve k mint owner CreatorVault = creatorVault owner"
| "resolve k mint owner TokenProgram = TOKEN_PROGRAM_ID"
| "resolve k mint owner EventAuthority = eventAuthority"
| "resolve k mint owner ProgramId = PUMP_FUN_PROGRAM"
| "resolve k mint owner GlobalVolumeAccumulator = globalVolumeAccumulator"
| "resolve k mint owner UserVolumeAccumulator = userVolumeAccumulator owner"
| "resolve k mint owner FeeConfig = (if k = Sell then feeConfigPDA else FEE_CONFIG)"
| "resolve k mint owner FeeProgram = FEE_PROGRAM"
| "resolve k mint owner MintAuthority = MINT_AUTHORITY"
| "resolve k mint owner MetadataProgram = MPL_TOKEN_METADATA"
| "resolve k mint owner Metadata = metadata mint"
| "resolve k mint owner AssociatedTokenProgram = ASSOCIATED_TOKEN_PROGRAM_ID"
| "resolve k mint owner RentSysvar = RENT"
| "resolve k mint owner ProgramAccount = PUMP_FUN_ACCOUNT"

text \<open>A schema entry is a role with its signer flag and its writable flag.\<close>

definition spec_schema :: "kind \<Rightarrow> (role \<times> bool \<times> bool) list" where
  "spec_schema k =
     (case k of
        Create \<Rightarrow>
          [(Mint, True, True), (MintAuthority, False, False), (BondingCurve, False, True),
           (AssociatedBondingCurve, False, True), (GlobalConfig, False, False),
           (MetadataProgram, False, False), (Metadata, False, True), (Owner, True, True),
           (SystemProgram, False, False), (TokenProgram, False, False),
           (AssociatedTokenProgram, False, False), (RentSysvar, False, False),
           (ProgramAccount, False, False), (ProgramId, False, False)]
      | _ \<Rightarrow>
          [(GlobalConfig, False, False), (FeeRecipient, False, True), (Mint, False, False),
           (BondingCurve, False, True), (AssociatedBondingCurve, False, True),
           (UserTokenAccount, False, True), (Owner, True, True), (SystemProgram, False, False),
           (CreatorVault, False, True), (TokenProgram, False, False),
           (EventAuthority, False, False), (ProgramId, False, False)]
          @ (if k = Buy then [(GlobalVolumeAccumulator, False, True),
                              (UserVolumeAccumulator, False, True)] else [])
          @ [(FeeConfig, False, False), (FeeProgram, False, False)])"

text \<open>The order the buy instruction has in \<^verbatim>\<open>buyKeys\<close>: the token program comes before the
  creator vault.\<close>

definition buy_schema :: "(role \<times> bool \<times> bool) list" where
  "buy_schema =
     [(GlobalConfig, False, False), (FeeRecipient, False, True), (Mint, False, False),
      (BondingCurve, False, True), (AssociatedBondingCurve, False, True),
      (UserTokenAccount, False, True), (Owner, True, True), (SystemProgram, False, False),
      (TokenProgram, False, False), (CreatorVault, False, True),
      (EventAuthority, False, False), (ProgramId, False, False),
      (GlobalVolumeAccumulator, False, True), (UserVolumeAccumulator, False, True),
      (FeeConfig, False, False), (FeeProgram, False, False)]"

definition account_list :: "kind \<Rightarrow> pubkey \<Rightarrow> pubkey \<Rightarrow> (role \<times> bool \<times> bool) list \<Rightarrow> AccountMeta list" where
  "account_list k mint owner schema =
     map (\<lambda>(r, s, w). acct (resolve k mint owner r) s w) schema"

text \<open>The 24 bytes of a sell payload for a given balance and minimum 0.\<close>

definition sell_payload :: "64 word \<Rightarrow> byte list" where
  "sell_payload balance =
     le_bytes 8 (nat sell_discriminator) @ le_bytes 8 (unat balance) @ le_bytes 8 0"

text \<open>An environment in which every outside call succeeds, for concrete runs.\<close>

definition env_ok :: env where
  "env_ok =
     \<lparr>newConnection = (\<lambda>_. Inr ()),
      getKeyPairFromPrivateKey = (\<lambda>_. Inr (Base58 ''owner'')),
      keypairFromSecretKey = (\<lambda>_. Inr (Base58 ''owner'')),
      validPublicKey = (\<lambda>_. True),
      generate = Base58 ''mint'',
      toBuffer = (\<lambda>_. []),
      getAccountInfo = (\<lambda>_ _ _. Inr True),
      getTokenAccountBalance = (\<lambda>_ _. Inr 153285714285714),
      sendAndConfirmTransaction = (\<lambda>_ _ _ _. Inr (Some ''sig'')),
      getParsedTransaction = (\<lambda>_ _. Inr None)\<rparr>"

text \<open>Concrete inputs for the runs below: a sell request whose recorded amount (42) is not
  the balance the environment reports; a confirmed transaction after which the owner holds
  5000 lamports less than before; a launch request with an 11-character symbol and a
  slippage of 150 percent.\<close>

definition demo_sellConfig :: SellConfig where
  "demo_sellConfig =
     \<lparr>tokenMint = ''mint'', tokenAmount = 42, minSolOut = 0, slippage = 5,
      priorityFee = 1 / 10000\<rparr>"

definition tx_loss :: ParsedTx where
  "tx_loss =
     \<lparr>accountKeys = [Base58 ''fee'', Base58 ''owner''],
      meta = Some \<lparr>preBalances = [5, 1000000], postBalances = [5005, 995000]\<rparr>\<rparr>"

definition env_loss :: env where
  "env_loss = env_ok\<lparr>getParsedTransaction := (\<lambda>_ _. Inr (Some tx_loss))\<rparr>"

definition long_symbol_config :: TokenLaunchConfig where
  "long_symbol_config =
     \<lparr>name = ''Demo'', symbol = ''ELEVENCHARS'', mintKeypair = None, metadataUrl = ''ipfs://m'',
      initialBuy = None, launchSlippage = Some 150, launchPriorityFee = Some 0\<rparr>"



section \<open>Properties of the curve arithmetic\<close>

lemma effectiveIn_nonneg:
  assumes "0 \<le> s" "f \<le> 10000"
  shows "0 \<le> effectiveIn s f"
proof -
  have "0 \<le> s * (10000 - f)" using assms by simp
  then have "(0::rat) \<le> of_int (s * (10000 - f))" by (simp only: of_int_0_le_iff)
  then show ?thesis unfolding effectiveIn_def by (simp only: zero_le_divide_iff) simp
qed

lemma effectiveIn_mono:
  assumes "x \<le> y" "f \<le> 10000"
  shows "effectiveIn x f \<le> effectiveIn y f"
proof -
  have "x * (10000 - f) \<le> y * (10000 - f)"
    using assms by (intro mult_right_mono) simp_all
  then have "(of_int (x * (10000 - f)) :: rat) \<le> of_int (y * (10000 - f))"
    by (simp only: of_int_le_iff)
  then show ?thesis unfolding effectiveIn_def by (intro divide_right_mono) simp_all
qed

lemma curve_quotient_mono:
  fixes T S a b :: rat
  assumes "0 \<le> T" "0 < S" "0 \<le> a" "a \<le> b"
  shows "T * a / (S + a) \<le> T * b / (S + b)"
proof -
  have pa: "0 < S + a" and pb: "0 < S + b" using assms by simp_all
  have "T * a * S \<le> T * b * S"
    using assms by (intro mult_right_mono mult_left_mono) simp_all
  then have "T * a * (S + b) \<le> T * b * (S + a)"
    by (simp add: algebra_simps)
  then show ?thesis
    using pa pb by (simp add: frac_le_eq field_simps)
qed

lemma curve_quotient_less:
  fixes T S a :: rat
  assumes "0 < T" "0 < S" "0 \<le> a"
  shows "T * a / (S + a) < T"
proof -
  have pa: "0 < S + a" using assms by simp
  have "T * a < T * (S + a)" using assms by (simp add: algebra_simps)
  then show ?thesis using pa by (simp add: pos_divide_less_eq)
qed

lemma quote_integer_form:
  fixes T S n :: int
  shows "\<lfloor>(of_int T :: rat) * (of_int n / 10000) / (of_int S + of_int n / 10000)\<rfloor>
           = T * n div (10000 * S + n)"
proof -
  have "(of_int T :: rat) * (of_int n / 10000) / (of_int S + of_int n / 10000)
          = of_int (T * n) / of_int (10000 * S + n)"
    by (simp add: field_simps)
  then show ?thesis by (simp only: floor_divide_of_int_eq)
qed

lemma quote_real_form:
  fixes T S n :: int
  shows "\<lfloor>real_of_int T * (real_of_int n / 10000) / (real_of_int S + real_of_int n / 10000)\<rfloor>
           = T * n div (10000 * S + n)"
proof -
  have "real_of_int T * (real_of_int n / 10000) / (real_of_int S + real_of_int n / 10000)
          = real_of_int (T * n) / real_of_int (10000 * S + n)"
    by (simp add: field_simps)
  then show ?thesis by (simp only: floor_divide_of_int_eq)
qed

lemma quote_as_integers:
  "calculateTokenAmountForBuy solIn T S feeBps =
     (if T < 0 \<or> S \<le> 0 then Inl InvalidReserves
      else Inr (T * (solIn * (10000 - feeBps)) div (10000 * S + solIn * (10000 - feeBps))))"
  unfolding calculateTokenAmountForBuy_def effectiveIn_def Let_def
  by (simp only: quote_integer_form)

text \<open>
  Claim C1. For all non-negative integer inputs with a positive fund reserve, the buy
  quote is the floor of \<open>virtualTokenReserves * effectiveIn / (virtualSolReserves + effectiveIn)\<close>,
  where \<open>effectiveIn\<close> is the exact quotient \<open>solIn * (10000 - feeBps) / 10000\<close>; for
  reserves 1,000,000 and 1,000, input 100 and fee 0 the quote is 90909. All quotients are
  quotients of real numbers, and there is one floor. (A fee above 10000 basis points
  makes the effective input negative; where the denominator then vanishes both sides are
  0 by the convention \<open>x / 0 = 0\<close>.)
\<close>

theorem C1_buy_quote_formula:
  assumes "0 \<le> solIn" "0 \<le> virtualTokenReserves" "0 < virtualSolReserves" "0 \<le> feeBps"
  shows "real_of_rat (effectiveIn solIn feeBps)
           = real_of_int solIn * (10000 - real_of_int feeBps) / 10000
       \<and> calculateTokenAmountForBuy solIn virtualTokenReserves virtualSolReserves feeBps =
           Inr \<lfloor>real_of_int virtualTokenReserves * real_of_rat (effectiveIn solIn feeBps)
                 / (real_of_int virtualSolReserves + real_of_rat (effectiveIn solIn feeBps))\<rfloor>
       \<and> calculateTokenAmountForBuy 100 1000000 1000 0 = Inr 90909"
proof (intro conjI)
  have r: "real_of_rat (effectiveIn solIn feeBps) = real_of_int (solIn * (10000 - feeBps)) / 10000"
    unfolding effectiveIn_def by (simp only: of_rat_divide of_rat_of_int_eq of_rat_numeral_eq)
  then show "real_of_rat (effectiveIn solIn feeBps)
           = real_of_int solIn * (10000 - real_of_int feeBps) / 10000"
    by simp
  show "calculateTokenAmountForBuy solIn virtualTokenReserves virtualSolReserves feeBps =
           Inr \<lfloor>real_of_int virtualTokenReserves * real_of_rat (effectiveIn solIn feeBps)
                 / (real_of_int virtualSolReserves + real_of_rat (effectiveIn solIn feeBps))\<rfloor>"
    using assms
    by (simp only: r quote_real_form) (simp add: quote_as_integers)
  show "calculateTokenAmountForBuy 100 1000000 1000 0 = Inr 90909"
    by (simp add: quote_as_integers)
qed

theorem C1_buy_quote_formula_witness:
  "(0::int) \<le> 12345 \<and> (0::int) \<le> 1073000000000000 \<and> (0::int) < 30000000000 \<and> (0::int) \<le> 100
   \<and> real_of_rat (effectiveIn 12345 100) = 1222155 / 100
   \<and> calculateTokenAmountForBuy 12345 1073000000000000 30000000000 100 = Inr 437123926"
proof -
  have q: "calculateTokenAmountForBuy 12345 1073000000000000 30000000000 100 = Inr 437123926"
    by (simp add: quote_as_integers)
  from C1_buy_quote_formula [of 12345 1073000000000000 30000000000 100] q
  show ?thesis by simp
qed

text \<open>
  Claim C2. For fixed (positive) reserves and a fee of at most 10000 basis points, the
  buy quote is monotone in the input: for \<open>0 \<le> x \<le> y\<close> both quotes exist and the quote
  for \<open>x\<close> is at most the quote for \<open>y\<close>; and every quote for a non-negative input is
  strictly below \<open>virtualTokenReserves\<close>.
\<close>

theorem C2_buy_quote_monotone_bounded:
  assumes "0 \<le> x" "x \<le> y" "0 < virtualTokenReserves" "0 < virtualSolReserves" "feeBps \<le> 10000"
  shows "\<exists>a b. calculateTokenAmountForBuy x virtualTokenReserves virtualSolReserves feeBps = Inr a
             \<and> calculateTokenAmountForBuy y virtualTokenReserves virtualSolReserves feeBps = Inr b
             \<and> a \<le> b \<and> a < virtualTokenReserves \<and> b < virtualTokenReserves"
proof -
  let ?ex = "effectiveIn x feeBps" and ?ey = "effectiveIn y feeBps"
  let ?T = "of_int virtualTokenReserves :: rat" and ?S = "of_int virtualSolReserves :: rat"
  have ex: "0 \<le> ?ex" using assms by (intro effectiveIn_nonneg) simp_all
  have ey: "0 \<le> ?ey" using assms by (intro effectiveIn_nonneg) simp_all
  have le: "?ex \<le> ?ey" using assms by (intro effectiveIn_mono) simp_all
  have T0: "0 \<le> ?T" and T1: "0 < ?T" and S1: "0 < ?S" using assms by simp_all
  have "?T * ?ex / (?S + ?ex) \<le> ?T * ?ey / (?S + ?ey)"
    using T0 S1 ex le by (rule curve_quotient_mono)
  then have m: "\<lfloor>?T * ?ex / (?S + ?ex)\<rfloor> \<le> \<lfloor>?T * ?ey / (?S + ?ey)\<rfloor>"
    by (rule floor_mono)
  have "?T * ?ex / (?S + ?ex) < ?T" using T1 S1 ex by (rule curve_quotient_less)
  then have bx: "\<lfloor>?T * ?ex / (?S + ?ex)\<rfloor> < virtualTokenReserves"
    by (simp only: floor_less_iff)
  have "?T * ?ey / (?S + ?ey) < ?T" using T1 S1 ey by (rule curve_quotient_less)
  then have by': "\<lfloor>?T * ?ey / (?S + ?ey)\<rfloor> < virtualTokenReserves"
    by (simp only: floor_less_iff)
  show ?thesis
    using m bx by' assms(3,4) by (simp add: calculateTokenAmountForBuy_def Let_def)
qed

theorem C2_buy_quote_monotone_bounded_witness:
  "(0::int) \<le> 100 \<and> (100::int) \<le> 2000 \<and> (0::int) < 1000000 \<and> (0::int) < 1000 \<and> (25::int) \<le> 10000
   \<and> (\<exists>a b. calculateTokenAmountForBuy 100 1000000 1000 25 = Inr a
           \<and> calculateTokenAmountForBuy 2000 1000000 1000 25 = Inr b
           \<and> a \<le> b \<and> a < 1000000 \<and> b < 1000000)"
  using C2_buy_quote_monotone_bounded [of 100 2000 1000000 1000 25]
  by simp

section \<open>Properties of the payload encoding and of sellToken\<close>

lemma length_le_bytes: "length (le_bytes k n) = k"
  by (induction k arbitrary: n) simp_all

lemma le_value_le_bytes: "n < 256 ^ k \<Longrightarrow> le_value (le_bytes k n) = n"
proof (induction k arbitrary: n)
  case 0
  then show ?case by simp
next
  case (Suc k)
  have "n div 256 < 256 ^ k" using Suc.prems by (simp add: less_mult_imp_div_less mult.commute)
  then have "le_value (le_bytes k (n div 256)) = n div 256" by (rule Suc.IH)
  moreover have "unat (of_nat (n mod 256) :: byte) = n mod 256"
    by (simp add: unat_of_nat)
  ultimately show ?case by simp
qed

lemma uint_fits: "bufferFromUInt64 (uint (b :: 64 word)) = Inr (le_bytes 8 (unat b))"
proof -
  have "uint b < 2 ^ 64" using uint_lt2p [of b] by simp
  then show ?thesis by (simp add: bufferFromUInt64_def)
qed

lemma sellData_balance: "sellData (uint (b :: 64 word)) 0 = Inr (sell_payload b)"
  by (simp add: sellData_def uint_fits sell_payload_def) (simp add: bufferFromUInt64_def sell_discriminator_def)

lemma payload_fields:
  "length (sell_payload b) = 24"
  "payload_discriminator (sell_payload b) = nat sell_discriminator"
  "payload_amount (sell_payload b) = unat b"
  "payload_limit (sell_payload b) = 0"
proof -
  have d: "nat sell_discriminator < 256 ^ 8" by (simp add: sell_discriminator_def)
  have a: "unat b < 256 ^ 8" using unsigned_less [of b] by simp
  show "length (sell_payload b) = 24" by (simp add: sell_payload_def length_le_bytes)
  show "payload_discriminator (sell_payload b) = nat sell_discriminator"
    using le_value_le_bytes [OF d] by (simp add: payload_discriminator_def sell_payload_def length_le_bytes)
  show "payload_amount (sell_payload b) = unat b"
    using le_value_le_bytes [OF a] by (simp add: payload_amount_def sell_payload_def length_le_bytes)
  show "payload_limit (sell_payload b) = 0"
    using le_value_le_bytes [of 0 8] by (simp add: payload_limit_def sell_payload_def length_le_bytes)
qed


lemma poll_effects:
  "e \<in> set (snd (pollTokenMint env url mint r)) \<Longrightarrow> e = GetAccountInfo url mint \<or> e = Wait retryDelay"
proof (induction env url mint r rule: pollTokenMint.induct)
  case (1 env url mint retryCount)
  from "1.prems" "1.IH" show ?case
    by (auto simp add: pollTokenMint.simps [of env url mint retryCount] bind_def call_def ret_def
          split: prod.splits sum.splits if_splits)
qed

lemma prepare_effects:
  "e \<in> set (snd (sell_prepare env config privKey url)) \<Longrightarrow>
     e = GetAccountInfo url (Base58 (tokenMint config)) \<or> e = Wait retryDelay"
  using poll_effects [of e env url "Base58 (tokenMint config)" 0]
  by (auto simp add: sell_prepare_def bind_def lift_def throw_def ret_def newPublicKey_def
        split: prod.splits sum.splits if_splits privateKey.splits)

lemma prepare_result:
  "sell_prepare env config privKey url = (Inr (mint, owner), es) \<Longrightarrow>
     mint = Base58 (tokenMint config)
     \<and> (case privKey of KeyString k \<Rightarrow> getKeyPairFromPrivateKey env k | KeypairObject kp \<Rightarrow> Inr kp) = Inr owner
     \<and> validateSellConfig (config\<lparr>tokenAmount := 1\<rparr>) = Inr True"
  by (auto simp add: sell_prepare_def bind_def lift_def throw_def ret_def newPublicKey_def validateSellConfig_def
        split: prod.splits sum.splits if_splits privateKey.splits)

lemma submit_sends:
  assumes "SendTransaction u instrs p sg \<in> set (snd (sell_submit env url mint owner))"
  shows "\<exists>balance post.
           getTokenAccountBalance env mainnet_beta (AssociatedTokenAddress mint owner) = Inr balance
         \<and> instrs = sellInstructions mint owner (sell_payload balance)
         \<and> u = url \<and> p = owner \<and> sg = [owner]
         \<and> snd (sell_submit env url mint owner)
             = [GetTokenAccountBalance mainnet_beta (AssociatedTokenAddress mint owner),
                SendTransaction u instrs p sg] @ post"
  using assms
  by (auto simp add: sell_submit_def sell_settle_def bind_def lift_def call_def ret_def Let_def sellData_balance
        split: prod.splits sum.splits if_splits option.splits)


lemma sellToken_effects:
  "snd (sellToken env config privKey rpcUrl) =
     (case sell_prepare env config privKey (endpoint rpcUrl) of
        (Inl e, es) \<Rightarrow> es
      | (Inr (mint, owner), es) \<Rightarrow> es @ snd (sell_submit env (endpoint rpcUrl) mint owner))"
  by (simp add: sellToken_def sell_body_def bind_def Let_def split: prod.splits sum.splits)

lemma sellToken_sends:
  assumes "SendTransaction u instrs p sg \<in> set (snd (sellToken env config privKey rpcUrl))"
  shows "\<exists>owner balance pre post.
           (case privKey of KeyString k \<Rightarrow> getKeyPairFromPrivateKey env k | KeypairObject kp \<Rightarrow> Inr kp) = Inr owner
         \<and> validateSellConfig (config\<lparr>tokenAmount := 1\<rparr>) = Inr True
         \<and> getTokenAccountBalance env mainnet_beta
               (AssociatedTokenAddress (Base58 (tokenMint config)) owner) = Inr balance
         \<and> instrs = sellInstructions (Base58 (tokenMint config)) owner (sell_payload balance)
         \<and> u = endpoint rpcUrl \<and> p = owner \<and> sg = [owner]
         \<and> snd (sellToken env config privKey rpcUrl)
             = pre @ [GetTokenAccountBalance mainnet_beta
                        (AssociatedTokenAddress (Base58 (tokenMint config)) owner),
                      SendTransaction u instrs p sg] @ post"
proof -
  let ?url = "endpoint rpcUrl"
  obtain r es where P: "sell_prepare env config privKey ?url = (r, es)"
    by (cases "sell_prepare env config privKey ?url")
  have no: "SendTransaction u instrs p sg \<notin> set es"
    using prepare_effects [of "SendTransaction u instrs p sg" env config privKey ?url] P by auto
  show ?thesis
  proof (cases r)
    case (Inl e)
    with P assms no show ?thesis by (simp add: sellToken_effects)
  next
    case (Inr mo)
    obtain mint owner where mo: "mo = (mint, owner)" by (cases mo)
    have R: "sell_prepare env config privKey ?url = (Inr (mint, owner), es)"
      using P Inr mo by simp
    have eff: "snd (sellToken env config privKey rpcUrl) = es @ snd (sell_submit env ?url mint owner)"
      using R by (simp add: sellToken_effects)
    then have "SendTransaction u instrs p sg \<in> set (snd (sell_submit env ?url mint owner))"
      using assms no by simp
    from submit_sends [OF this] obtain balance post where
      b: "getTokenAccountBalance env mainnet_beta (AssociatedTokenAddress mint owner) = Inr balance"
      and i: "instrs = sellInstructions mint owner (sell_payload balance)"
      and u: "u = ?url" "p = owner" "sg = [owner]"
      and s: "snd (sell_submit env ?url mint owner)
               = [GetTokenAccountBalance mainnet_beta (AssociatedTokenAddress mint owner),
                  SendTransaction u instrs p sg] @ post"
      by blast
    from prepare_result [OF R] have m: "mint = Base58 (tokenMint config)"
      and k: "(case privKey of KeyString k \<Rightarrow> getKeyPairFromPrivateKey env k | KeypairObject kp \<Rightarrow> Inr kp) = Inr owner"
      and v: "validateSellConfig (config\<lparr>tokenAmount := 1\<rparr>) = Inr True"
      by simp_all
    have "snd (sellToken env config privKey rpcUrl)
            = es @ [GetTokenAccountBalance mainnet_beta
                      (AssociatedTokenAddress (Base58 (tokenMint config)) owner),
                    SendTransaction u instrs p sg] @ post"
      using eff s m by simp
    with b i u m k v show ?thesis by blast
  qed
qed

lemma prepare_ignores_tokenAmount:
  "sell_prepare env (config\<lparr>tokenAmount := a\<rparr>) privKey url = sell_prepare env config privKey url"
  by (simp add: sell_prepare_def cong: if_cong)

lemma validate_ignores_minSolOut:
  "0 \<le> minSolOut config \<Longrightarrow> 0 \<le> m \<Longrightarrow>
     validateSellConfig (config\<lparr>minSolOut := m, tokenAmount := 1\<rparr>)
       = validateSellConfig (config\<lparr>tokenAmount := 1\<rparr>)"
  by (simp add: validateSellConfig_def)

lemma prepare_ignores_minSolOut:
  "0 \<le> minSolOut config \<Longrightarrow> 0 \<le> m \<Longrightarrow>
     sell_prepare env (config\<lparr>minSolOut := m\<rparr>) privKey url = sell_prepare env config privKey url"
  by (simp add: sell_prepare_def validate_ignores_minSolOut cong: if_cong)

lemma sellToken_ignores_tokenAmount:
  "sellToken env (config\<lparr>tokenAmount := a\<rparr>) privKey rpcUrl = sellToken env config privKey rpcUrl"
  by (simp add: sellToken_def sell_body_def prepare_ignores_tokenAmount)

lemma sellToken_ignores_minSolOut:
  "0 \<le> minSolOut config \<Longrightarrow> 0 \<le> m \<Longrightarrow>
     sellToken env (config\<lparr>minSolOut := m\<rparr>) privKey rpcUrl = sellToken env config privKey rpcUrl"
  by (simp add: sellToken_def sell_body_def prepare_ignores_minSolOut)

lemma env_ok_fields:
  "newConnection env_ok u = Inr ()"
  "getKeyPairFromPrivateKey env_ok k = Inr (Base58 ''owner'')"
  "keypairFromSecretKey env_ok k = Inr (Base58 ''owner'')"
  "validPublicKey env_ok k = True"
  "generate env_ok = Base58 ''mint''"
  "toBuffer env_ok key = []"
  "getAccountInfo env_ok u key n = Inr True"
  "getTokenAccountBalance env_ok u key = Inr 153285714285714"
  "sendAndConfirmTransaction env_ok u is p sg = Inr (Some ''sig'')"
  "getParsedTransaction env_ok u s = Inr None"
  by (simp_all add: env_ok_def)

lemma poll_env_ok: "pollTokenMint env_ok url mint 0 = (Inr True, [GetAccountInfo url mint])"
  by (simp add: pollTokenMint.simps [of env_ok url mint 0] env_ok_fields maxRetries_def bind_def call_def ret_def)

lemma sell_env_ok:
  assumes "0 \<le> minSolOut config" "0 \<le> slippage config" "slippage config \<le> 100"
   "0 \<le> priorityFee config" "tokenMint config \<noteq> []"
  shows "sellToken env_ok config (KeypairObject owner) None =
     (SellSucceeded ''sig'' 0,
      [GetAccountInfo default_rpc (Base58 (tokenMint config)),
       GetTokenAccountBalance mainnet_beta (AssociatedTokenAddress (Base58 (tokenMint config)) owner),
       SendTransaction default_rpc
         (sellInstructions (Base58 (tokenMint config)) owner (sell_payload 153285714285714)) owner [owner],
       Wait 2000, GetParsedTransaction default_rpc ''sig''])"
proof -
  have v: "validateSellConfig (config\<lparr>tokenAmount := 1\<rparr>) = Inr True"
    using assms by (simp add: validateSellConfig_def)
  have p: "sell_prepare env_ok config (KeypairObject owner) default_rpc
             = (Inr (Base58 (tokenMint config), owner), [GetAccountInfo default_rpc (Base58 (tokenMint config))])"
    by (simp add: sell_prepare_def v poll_env_ok bind_def lift_def ret_def newPublicKey_def env_ok_fields)
  have s: "sell_submit env_ok default_rpc m owner =
     (Inr (SellSucceeded ''sig'' 0),
      [GetTokenAccountBalance mainnet_beta (AssociatedTokenAddress m owner),
       SendTransaction default_rpc (sellInstructions m owner (sell_payload 153285714285714)) owner [owner],
       Wait 2000, GetParsedTransaction default_rpc ''sig''])" for m
    by (simp add: sell_submit_def Let_def env_ok_fields sellData_balance bind_def lift_def call_def
          sell_settle_def actualSolReceived_def)
  show ?thesis
    by (simp add: sellToken_def sell_body_def endpoint_def p s bind_def)
qed


text \<open>
  Claim C6. Whenever \<open>sellToken\<close> submits a transaction, the call made just before the
  submission is the balance query for the owner's token account (on the mainnet-beta
  endpoint), that query answered a balance, and the transaction submitted is the two
  compute-budget directives followed by exactly one instruction of the program, with the
  sell account list, whose 24-byte payload is the sell discriminator, then that balance
  as the amount, then the minimum; the amount read back from the payload is the balance.
  The amount recorded in the request has no influence on what \<open>sellToken\<close> does.
\<close>

theorem C6_sell_amount_is_live_balance:
  assumes "SendTransaction u instrs p sg \<in> set (snd (sellToken env config privKey rpcUrl))"
  shows "\<exists>owner balance d pre post.
           snd (sellToken env config privKey rpcUrl)
             = pre @ [GetTokenAccountBalance mainnet_beta
                        (AssociatedTokenAddress (Base58 (tokenMint config)) owner),
                      SendTransaction u instrs p sg] @ post
         \<and> getTokenAccountBalance env mainnet_beta
               (AssociatedTokenAddress (Base58 (tokenMint config)) owner) = Inr balance
         \<and> instrs = [SetComputeUnitLimit 100000, SetComputeUnitPrice 1000,
                     TransactionInstruction (sellKeys (Base58 (tokenMint config)) owner)
                       PUMP_FUN_PROGRAM d]
         \<and> d = le_bytes 8 (nat sell_discriminator) @ le_bytes 8 (unat balance) @ le_bytes 8 0
         \<and> length d = 24
         \<and> le_value (take 8 (drop 8 d)) = unat balance
         \<and> payload_amount d = unat balance
         \<and> (\<forall>recorded. sellToken env (config\<lparr>tokenAmount := recorded\<rparr>) privKey rpcUrl
                          = sellToken env config privKey rpcUrl)"
proof -
  from sellToken_sends [OF assms] obtain owner balance pre post where
    b: "getTokenAccountBalance env mainnet_beta
          (AssociatedTokenAddress (Base58 (tokenMint config)) owner) = Inr balance"
    and i: "instrs = sellInstructions (Base58 (tokenMint config)) owner (sell_payload balance)"
    and e: "snd (sellToken env config privKey rpcUrl)
             = pre @ [GetTokenAccountBalance mainnet_beta
                        (AssociatedTokenAddress (Base58 (tokenMint config)) owner),
                      SendTransaction u instrs p sg] @ post"
    by blast
  have i': "instrs = [SetComputeUnitLimit 100000, SetComputeUnitPrice 1000,
                     TransactionInstruction (sellKeys (Base58 (tokenMint config)) owner)
                       PUMP_FUN_PROGRAM (sell_payload balance)]"
    using i by (simp add: sellInstructions_def)
  have d: "sell_payload balance
             = le_bytes 8 (nat sell_discriminator) @ le_bytes 8 (unat balance) @ le_bytes 8 0"
    by (simp add: sell_payload_def)
  have l: "length (sell_payload balance) = 24" by (rule payload_fields)
  have a: "payload_amount (sell_payload balance) = unat balance" by (rule payload_fields)
  then have a': "le_value (take 8 (drop 8 (sell_payload balance))) = unat balance"
    by (simp add: payload_amount_def)
  have r: "\<forall>recorded. sellToken env (config\<lparr>tokenAmount := recorded\<rparr>) privKey rpcUrl
                          = sellToken env config privKey rpcUrl"
    by (simp add: sellToken_ignores_tokenAmount)
  from e b i' d l a' a r show ?thesis by blast
qed

theorem C6_sell_amount_is_live_balance_witness:
  "SendTransaction default_rpc
      [SetComputeUnitLimit 100000, SetComputeUnitPrice 1000,
       TransactionInstruction (sellKeys (Base58 ''mint'') (Base58 ''owner'')) PUMP_FUN_PROGRAM
         (le_bytes 8 (nat sell_discriminator) @ le_bytes 8 153285714285714 @ le_bytes 8 0)]
      (Base58 ''owner'') [Base58 ''owner'']
     \<in> set (snd (sellToken env_ok demo_sellConfig (KeypairObject (Base58 ''owner'')) None))
   \<and> tokenAmount demo_sellConfig = 42
   \<and> le_value (take 8 (drop 8
        (le_bytes 8 (nat sell_discriminator) @ le_bytes 8 153285714285714 @ le_bytes 8 0)))
       = 153285714285714
   \<and> (\<exists>owner balance d pre post.
           snd (sellToken env_ok demo_sellConfig (KeypairObject (Base58 ''owner'')) None)
             = pre @ [GetTokenAccountBalance mainnet_beta
                        (AssociatedTokenAddress (Base58 (tokenMint demo_sellConfig)) owner),
                      SendTransaction default_rpc
                        [SetComputeUnitLimit 100000, SetComputeUnitPrice 1000,
                         TransactionInstruction (sellKeys (Base58 ''mint'') (Base58 ''owner''))
                           PUMP_FUN_PROGRAM
                           (le_bytes 8 (nat sell_discriminator) @ le_bytes 8 153285714285714
                              @ le_bytes 8 0)]
                        (Base58 ''owner'') [Base58 ''owner'']] @ post
         \<and> getTokenAccountBalance env_ok mainnet_beta
               (AssociatedTokenAddress (Base58 (tokenMint demo_sellConfig)) owner) = Inr balance
         \<and> d = le_bytes 8 (nat sell_discriminator) @ le_bytes 8 (unat balance) @ le_bytes 8 0
         \<and> payload_amount d = unat balance
         \<and> (\<forall>recorded. sellToken env_ok (demo_sellConfig\<lparr>tokenAmount := recorded\<rparr>)
                            (KeypairObject (Base58 ''owner'')) None
                          = sellToken env_ok demo_sellConfig (KeypairObject (Base58 ''owner'')) None))"
proof -
  have u: "unat (153285714285714 :: 64 word) = 153285714285714" by simp
  have run: "sellToken env_ok demo_sellConfig (KeypairObject (Base58 ''owner'')) None =
     (SellSucceeded ''sig'' 0,
      [GetAccountInfo default_rpc (Base58 ''mint''),
       GetTokenAccountBalance mainnet_beta (AssociatedTokenAddress (Base58 ''mint'') (Base58 ''owner'')),
       SendTransaction default_rpc
         [SetComputeUnitLimit 100000, SetComputeUnitPrice 1000,
          TransactionInstruction (sellKeys (Base58 ''mint'') (Base58 ''owner'')) PUMP_FUN_PROGRAM
            (le_bytes 8 (nat sell_discriminator) @ le_bytes 8 153285714285714 @ le_bytes 8 0)]
         (Base58 ''owner'') [Base58 ''owner''],
       Wait 2000, GetParsedTransaction default_rpc ''sig''])"
    using sell_env_ok [of demo_sellConfig "Base58 ''owner''"]
    by (simp add: demo_sellConfig_def sellInstructions_def sell_payload_def u del: le_bytes.simps)
  have h: "SendTransaction default_rpc
      [SetComputeUnitLimit 100000, SetComputeUnitPrice 1000,
       TransactionInstruction (sellKeys (Base58 ''mint'') (Base58 ''owner'')) PUMP_FUN_PROGRAM
         (le_bytes 8 (nat sell_discriminator) @ le_bytes 8 153285714285714 @ le_bytes 8 0)]
      (Base58 ''owner'') [Base58 ''owner'']
     \<in> set (snd (sellToken env_ok demo_sellConfig (KeypairObject (Base58 ''owner'')) None))"
    by (simp add: run del: le_bytes.simps)
  have t: "tokenAmount demo_sellConfig = 42" by (simp add: demo_sellConfig_def)
  have v: "le_value (take 8 (drop 8
        (le_bytes 8 (nat sell_discriminator) @ le_bytes 8 153285714285714 @ le_bytes 8 0)))
       = 153285714285714"
    using le_value_le_bytes [of 153285714285714 8] by (simp add: length_le_bytes del: le_bytes.simps)
  from C6_sell_amount_is_live_balance [OF h] obtain owner balance d pre post where
    c: "snd (sellToken env_ok demo_sellConfig (KeypairObject (Base58 ''owner'')) None)
             = pre @ [GetTokenAccountBalance mainnet_beta
                        (AssociatedTokenAddress (Base58 (tokenMint demo_sellConfig)) owner),
                      SendTransaction default_rpc
                        [SetComputeUnitLimit 100000, SetComputeUnitPrice 1000,
                         TransactionInstruction (sellKeys (Base58 ''mint'') (Base58 ''owner''))
                           PUMP_FUN_PROGRAM
                           (le_bytes 8 (nat sell_discriminator) @ le_bytes 8 153285714285714
                              @ le_bytes 8 0)]
                        (Base58 ''owner'') [Base58 ''owner'']] @ post
         \<and> getTokenAccountBalance env_ok mainnet_beta
               (AssociatedTokenAddress (Base58 (tokenMint demo_sellConfig)) owner) = Inr balance
         \<and> d = le_bytes 8 (nat sell_discriminator) @ le_bytes 8 (unat balance) @ le_bytes 8 0
         \<and> payload_amount d = unat balance
         \<and> (\<forall>recorded. sellToken env_ok (demo_sellConfig\<lparr>tokenAmount := recorded\<rparr>)
                            (KeypairObject (Base58 ''owner'')) None
                          = sellToken env_ok demo_sellConfig (KeypairObject (Base58 ''owner'')) None)"
    by blast
  from h t v c show ?thesis by blast
qed

text \<open>
  Claim C10. Whenever \<open>sellToken\<close> submits a transaction, for whatever request, the
  instruction list is the two compute-budget directives followed by one sell instruction
  whose 24-byte payload holds the sell discriminator, the balance just read (all of the
  holdings) as amount and 0 as minimum output; replacing the request's \<open>tokenAmount\<close> by
  any value and its \<open>minSolOut\<close> by any other non-negative value changes nothing. The
  request of the orchestrator, with a minimum of 0.04, is such a case.
\<close>

theorem C10_sell_ignores_amount_and_minimum:
  assumes "SendTransaction u instrs p sg \<in> set (snd (sellToken env config privKey rpcUrl))"
  shows "\<exists>owner balance d.
           getTokenAccountBalance env mainnet_beta
               (AssociatedTokenAddress (Base58 (tokenMint config)) owner) = Inr balance
         \<and> instrs = [SetComputeUnitLimit 100000, SetComputeUnitPrice 1000,
                     TransactionInstruction (sellKeys (Base58 (tokenMint config)) owner)
                       PUMP_FUN_PROGRAM d]
         \<and> length d = 24
         \<and> payload_discriminator d = nat sell_discriminator
         \<and> payload_amount d = unat balance
         \<and> payload_limit d = 0
         \<and> (\<forall>a m. 0 \<le> m \<longrightarrow>
                sellToken env (config\<lparr>tokenAmount := a, minSolOut := m\<rparr>) privKey rpcUrl
                  = sellToken env config privKey rpcUrl)"
proof -
  from sellToken_sends [OF assms] obtain owner balance where
    b: "getTokenAccountBalance env mainnet_beta
          (AssociatedTokenAddress (Base58 (tokenMint config)) owner) = Inr balance"
    and i: "instrs = sellInstructions (Base58 (tokenMint config)) owner (sell_payload balance)"
    and v: "validateSellConfig (config\<lparr>tokenAmount := 1\<rparr>) = Inr True"
    by blast
  have nonneg: "0 \<le> minSolOut config"
    using v by (simp add: validateSellConfig_def split: if_splits)
  have ign: "sellToken env (config\<lparr>tokenAmount := a, minSolOut := m\<rparr>) privKey rpcUrl
               = sellToken env config privKey rpcUrl" if "0 \<le> m" for a m
  proof -
    have "sellToken env ((config\<lparr>tokenAmount := a\<rparr>)\<lparr>minSolOut := m\<rparr>) privKey rpcUrl
            = sellToken env (config\<lparr>tokenAmount := a\<rparr>) privKey rpcUrl"
      using nonneg that by (intro sellToken_ignores_minSolOut) simp_all
    then show ?thesis by (simp add: sellToken_ignores_tokenAmount)
  qed
  have i': "instrs = [SetComputeUnitLimit 100000, SetComputeUnitPrice 1000,
                     TransactionInstruction (sellKeys (Base58 (tokenMint config)) owner)
                       PUMP_FUN_PROGRAM (sell_payload balance)]"
    using i by (simp add: sellInstructions_def)
  from b i' payload_fields [of balance] ign show ?thesis by blast
qed

theorem C10_sell_ignores_amount_and_minimum_witness:
  "minSolOut (orchestrator_sellConfig ''mint'') = 4 / 100
   \<and> SendTransaction default_rpc
        (sellInstructions (Base58 ''mint'') (Base58 ''owner'') (sell_payload 153285714285714))
        (Base58 ''owner'') [Base58 ''owner'']
       \<in> set (snd (sellToken env_ok (orchestrator_sellConfig ''mint'')
                      (KeypairObject (Base58 ''owner'')) None))
   \<and> (\<exists>owner balance d.
           getTokenAccountBalance env_ok mainnet_beta
               (AssociatedTokenAddress (Base58 (tokenMint (orchestrator_sellConfig ''mint''))) owner)
             = Inr balance
         \<and> sellInstructions (Base58 ''mint'') (Base58 ''owner'') (sell_payload 153285714285714)
             = [SetComputeUnitLimit 100000, SetComputeUnitPrice 1000,
                TransactionInstruction
                  (sellKeys (Base58 (tokenMint (orchestrator_sellConfig ''mint''))) owner)
                  PUMP_FUN_PROGRAM d]
         \<and> length d = 24
         \<and> payload_discriminator d = nat sell_discriminator
         \<and> payload_amount d = unat balance
         \<and> payload_limit d = 0
         \<and> (\<forall>a m. 0 \<le> m \<longrightarrow>
                sellToken env_ok ((orchestrator_sellConfig ''mint'')\<lparr>tokenAmount := a, minSolOut := m\<rparr>)
                    (KeypairObject (Base58 ''owner'')) None
                  = sellToken env_ok (orchestrator_sellConfig ''mint'')
                      (KeypairObject (Base58 ''owner'')) None))"
proof -
  have run: "sellToken env_ok (orchestrator_sellConfig ''mint'') (KeypairObject (Base58 ''owner'')) None =
     (SellSucceeded ''sig'' 0,
      [GetAccountInfo default_rpc (Base58 ''mint''),
       GetTokenAccountBalance mainnet_beta (AssociatedTokenAddress (Base58 ''mint'') (Base58 ''owner'')),
       SendTransaction default_rpc
         (sellInstructions (Base58 ''mint'') (Base58 ''owner'') (sell_payload 153285714285714))
         (Base58 ''owner'') [Base58 ''owner''],
       Wait 2000, GetParsedTransaction default_rpc ''sig''])"
    using sell_env_ok [of "orchestrator_sellConfig ''mint''" "Base58 ''owner''"]
    by (simp add: orchestrator_sellConfig_def)
  have h: "SendTransaction default_rpc
        (sellInstructions (Base58 ''mint'') (Base58 ''owner'') (sell_payload 153285714285714))
        (Base58 ''owner'') [Base58 ''owner'']
       \<in> set (snd (sellToken env_ok (orchestrator_sellConfig ''mint'')
                      (KeypairObject (Base58 ''owner'')) None))"
    by (simp add: run)
  have m: "minSolOut (orchestrator_sellConfig ''mint'') = 4 / 100"
    by (simp add: orchestrator_sellConfig_def)
  from m h C10_sell_ignores_amount_and_minimum [OF h] show ?thesis by blast
qed

lemma findIndex_first:
  "findIndex P xs = Some i \<Longrightarrow> i < length xs \<and> P (xs ! i)"
proof -
  assume a: "findIndex P xs = Some i"
  then obtain rest where "filter (\<lambda>i. P (xs ! i)) [0..<length xs] = i # rest"
    by (auto simp add: findIndex_def split: list.splits)
  then have "i \<in> set (filter (\<lambda>i. P (xs ! i)) [0..<length xs])" by simp
  then show ?thesis by simp
qed

text \<open>
  Claim C7, as amended. For a confirmed sell transaction whose details are available (the
  transaction has metadata, the owner is among its account keys, and both balances are
  listed at the owner's index), the settlement computation yields the difference
  \<open>postBalance - preBalance\<close> converted from lamports to SOL when that difference is
  positive, and 0 when it is zero or negative; this is the amount \<open>sellToken\<close> reports as
  received.
\<close>

theorem C7_settlement_delta_clamped:
  assumes "getParsedTransaction env url s = Inr (Some txInfo)" "s \<noteq> []"
    and "meta txInfo = Some m"
    and "findIndex (\<lambda>key. key = owner) (accountKeys txInfo) = Some i"
    and "at_index (preBalances m) i = Some preBalance"
    and "at_index (postBalances m) i = Some postBalance"
  shows "actualSolReceived (Inr (Some txInfo)) owner =
           (if postBalance - preBalance > 0
            then of_int (postBalance - preBalance) / 1000000000 else 0)
       \<and> sell_settle env url owner 0 (Some s) =
           (Inr (SellSucceeded s (if postBalance - preBalance > 0
                                  then of_int (postBalance - preBalance) / 1000000000 else 0)),
            [Wait 2000, GetParsedTransaction url s])
       \<and> accountKeys txInfo ! i = owner"
proof -
  have a: "actualSolReceived (Inr (Some txInfo)) owner =
           (if postBalance - preBalance > 0
            then of_int (postBalance - preBalance) / 1000000000 else 0)"
    using assms(3-6) by (simp add: actualSolReceived_def Let_def)
  have k: "accountKeys txInfo ! i = owner"
    using findIndex_first [OF assms(4)] by simp
  show ?thesis
    using assms(1,2) a k by (simp add: sell_settle_def Let_def)
qed

lemma tx_loss_facts:
  "meta tx_loss = Some \<lparr>preBalances = [5, 1000000], postBalances = [5005, 995000]\<rparr>"
  "findIndex (\<lambda>key. key = Base58 ''owner'') (accountKeys tx_loss) = Some 1"
  by (simp_all add: tx_loss_def findIndex_def)

theorem C7_settlement_delta_clamped_witness:
  "getParsedTransaction env_loss default_rpc ''sig'' = Inr (Some tx_loss) \<and> ''sig'' \<noteq> []
   \<and> meta tx_loss = Some \<lparr>preBalances = [5, 1000000], postBalances = [5005, 995000]\<rparr>
   \<and> findIndex (\<lambda>key. key = Base58 ''owner'') (accountKeys tx_loss) = Some 1
   \<and> at_index [5, 1000000 :: int] 1 = Some 1000000
   \<and> at_index [5005, 995000 :: int] 1 = Some 995000
   \<and> actualSolReceived (Inr (Some tx_loss)) (Base58 ''owner'') = 0
   \<and> sell_settle env_loss default_rpc (Base58 ''owner'') 0 (Some ''sig'') =
        (Inr (SellSucceeded ''sig'' 0), [Wait 2000, GetParsedTransaction default_rpc ''sig''])"
proof -
  have g: "getParsedTransaction env_loss default_rpc ''sig'' = Inr (Some tx_loss)"
    by (simp add: env_loss_def)
  have n: "''sig'' \<noteq> []" by simp
  have p1: "at_index (preBalances \<lparr>preBalances = [5, 1000000], postBalances = [5005, 995000]\<rparr>) 1 = Some 1000000"
    by (simp add: at_index_def)
  have p2: "at_index (postBalances \<lparr>preBalances = [5, 1000000], postBalances = [5005, 995000]\<rparr>) 1 = Some 995000"
    by (simp add: at_index_def)
  from C7_settlement_delta_clamped [OF g n tx_loss_facts(1) tx_loss_facts(2) p1 p2]
  show ?thesis using g tx_loss_facts by (simp add: at_index_def)
qed

theorem C7_negative_delta_counterexample:
  "actualSolReceived (Inr (Some tx_loss)) (Base58 ''owner'') = 0
   \<and> at_index (postBalances (the (meta tx_loss))) 1 = Some 995000
   \<and> at_index (preBalances (the (meta tx_loss))) 1 = Some 1000000
   \<and> accountKeys tx_loss ! 1 = Base58 ''owner''
   \<and> actualSolReceived (Inr (Some tx_loss)) (Base58 ''owner'') \<noteq> of_int (995000 - 1000000)
   \<and> actualSolReceived (Inr (Some tx_loss)) (Base58 ''owner'') \<noteq> of_int (995000 - 1000000) / 1000000000
   \<and> fst (sell_settle env_loss default_rpc (Base58 ''owner'') 0 (Some ''sig''))
       = Inr (SellSucceeded ''sig'' 0)"
  by (simp add: actualSolReceived_def tx_loss_def findIndex_def at_index_def sell_settle_def env_loss_def)

section \<open>Properties of launchToken and of the account lists\<close>

lemma bind_memE:
  assumes "e \<in> set (snd (bind m f))"
  obtains "e \<in> set (snd m)" | x where "fst m = Inr x" "e \<in> set (snd (f x))"
  using assms by (auto simp add: bind_def split: prod.splits sum.splits)

lemma launch_buy_result:
  assumes "launch_buy env url mint owner initBuy slip = (r, es)"
  shows "es = [GetAccountInfo url (AssociatedTokenAddress mint owner)]
       \<and> (\<forall>ixs ks pid d. r = Inr ixs \<longrightarrow> TransactionInstruction ks pid d \<in> set ixs
             \<longrightarrow> pid = PUMP_FUN_PROGRAM \<and> ks = buyKeys mint owner)"
  using assms
  by (auto simp add: launch_buy_def bind_def call_def lift_def ret_def Let_def
        split: prod.splits sum.splits if_splits curve_error.splits)

lemma launch_build_result:
  assumes "launch_build env url config owner = (r, es)"
  shows "(\<forall>e \<in> set es. \<exists>k. e = GetAccountInfo url k)
       \<and> (\<forall>mint instrs ks pid d. r = Inr (mint, instrs) \<longrightarrow> TransactionInstruction ks pid d \<in> set instrs
             \<longrightarrow> pid = PUMP_FUN_PROGRAM \<and> (ks = createKeys mint owner \<or> ks = buyKeys mint owner))"
  using assms launch_buy_result [of env url "case mintKeypair config of None \<Rightarrow> generate env | Some m \<Rightarrow> m" owner
            "case initialBuy config of None \<Rightarrow> 0 | Some v \<Rightarrow> v"
            "case launchSlippage config of None \<Rightarrow> 5 | Some v \<Rightarrow> v"]
  by (auto simp add: launch_build_def bind_def lift_def ret_def Let_def
        split: prod.splits sum.splits if_splits) blast+

lemma launch_send_effects:
  "snd (launch_send env url mint owner instructions)
     = [SendTransaction url instructions owner [owner, mint]]"
  by (auto simp add: launch_send_def bind_def call_def ret_def split: prod.splits sum.splits option.splits)

lemma launchToken_effects:
  "snd (launchToken env config privKey rpcUrl) = snd (launch_body env config privKey rpcUrl)"
  by (simp add: launchToken_def split: prod.splits sum.splits)

lemma launch_sends:
  assumes "SendTransaction u instrs p sg \<in> set (snd (launchToken env config privKey rpcUrl))"
  shows "\<exists>mint owner. p = owner \<and> sg = [owner, mint]
           \<and> (\<forall>ks pid d. TransactionInstruction ks pid d \<in> set instrs
                 \<longrightarrow> pid = PUMP_FUN_PROGRAM \<and> (ks = createKeys mint owner \<or> ks = buyKeys mint owner))"
proof -
  let ?e = "SendTransaction u instrs p sg"
  let ?url = "endpoint rpcUrl"
  have guard: "\<not> (name config = [] \<or> symbol config = [] \<or> metadataUrl config = [])"
    using assms by (auto simp add: launchToken_effects launch_body_def throw_def)
  from assms guard have "?e \<in> set (snd (
        bind (lift (newConnection env ?url)) (\<lambda>_.
        bind (lift (case privKey of
                      KeyString k \<Rightarrow> (case keypairFromSecretKey env k of
                                         Inr kp \<Rightarrow> Inr kp
                                       | Inl _ \<Rightarrow> getKeyPairFromPrivateKey env k)
                    | KeypairObject kp \<Rightarrow> Inr kp)) (\<lambda>owner.
        bind (launch_build env ?url config owner) (\<lambda>(mint, instructions).
        launch_send env ?url mint owner instructions)))))"
    by (simp add: launchToken_effects launch_body_def Let_def)
  then show ?thesis
  proof (elim bind_memE, goal_cases)
    case 1 then show ?case by (simp add: lift_def)
  next
    case 2 then show ?case by (simp add: lift_def)
  next
    case (3 x owner)
    obtain r es where b: "launch_build env ?url config owner = (r, es)"
      by (cases "launch_build env ?url config owner")
    from launch_build_result [OF b] 3 b show ?case by auto
  next
    case (4 x owner mi)
    obtain mint instructions where mi: "mi = (mint, instructions)" by (cases mi)
    obtain r es where b: "launch_build env ?url config owner = (r, es)"
      by (cases "launch_build env ?url config owner")
    from 4 mi b have r: "r = Inr (mint, instructions)" by simp
    from 4 mi have "p = owner \<and> sg = [owner, mint] \<and> instrs = instructions"
      by (simp add: launch_send_effects)
    with launch_build_result [OF b] r show ?case by blast
  qed
qed

lemma launch_long_symbol_run:
  "\<exists>d. launchToken env_ok long_symbol_config (KeypairObject (Base58 ''owner'')) None =
     (Launched ''sig'' (Base58 ''mint''),
      [SendTransaction default_rpc
         [TransactionInstruction (createKeys (Base58 ''mint'') (Base58 ''owner'')) PUMP_FUN_PROGRAM d]
         (Base58 ''owner'') [Base58 ''owner'', Base58 ''mint'']])"
  by (simp add: launchToken_def launch_body_def launch_build_def launch_send_def long_symbol_config_def
      env_ok_fields bind_def lift_def ret_def call_def endpoint_def bufferFromString_def Let_def)

lemma createKeys_schema: "createKeys mint owner = account_list Create mint owner (spec_schema Create)"
  by (simp add: createKeys_def account_list_def spec_schema_def)

lemma sellKeys_schema: "sellKeys mint owner = account_list Sell mint owner (spec_schema Sell)"
  by (simp add: sellKeys_def account_list_def spec_schema_def)

lemma buyKeys_schema: "buyKeys mint owner = account_list Buy mint owner buy_schema"
  by (simp add: buyKeys_def account_list_def buy_schema_def)

text \<open>
  Claim C5, as amended. The account list of every instruction the code builds follows a
  fixed schema, in order and in flags: the create and the sell instruction follow the
  schema of the specification; the buy instruction follows it except that the token
  program (position 9) comes before the creator vault (position 10): global-config,
  fee-recipient[writable], mint, bonding-curve[writable],
  associated-bonding-curve[writable], user-token-account[writable],
  owner[signer,writable], system-program, token-program, creator-vault[writable],
  event-authority, program-id, the two volume accumulators[writable], fee-config,
  fee-program. Every program instruction in a transaction \<open>sellToken\<close> submits has the
  sell list, every one in a transaction \<open>launchToken\<close> submits the create or the buy list.
\<close>

theorem C5_account_lists_follow_schema:
  "createKeys mint owner = account_list Create mint owner (spec_schema Create)
   \<and> sellKeys mint owner = account_list Sell mint owner (spec_schema Sell)
   \<and> buyKeys mint owner = account_list Buy mint owner buy_schema
   \<and> (\<forall>u instrs p sg ks pid d.
         SendTransaction u instrs p sg \<in> set (snd (sellToken env sellConfig privKey rpcUrl))
         \<longrightarrow> TransactionInstruction ks pid d \<in> set instrs
         \<longrightarrow> pid = PUMP_FUN_PROGRAM
             \<and> (\<exists>m. ks = account_list Sell m p (spec_schema Sell)))
   \<and> (\<forall>u instrs p sg ks pid d.
         SendTransaction u instrs p sg \<in> set (snd (launchToken env launchConfig privKey rpcUrl))
         \<longrightarrow> TransactionInstruction ks pid d \<in> set instrs
         \<longrightarrow> pid = PUMP_FUN_PROGRAM
             \<and> (\<exists>m. ks = account_list Create m p (spec_schema Create)
                     \<or> ks = account_list Buy m p buy_schema))"
proof (intro conjI allI impI)
  show "createKeys mint owner = account_list Create mint owner (spec_schema Create)"
    by (rule createKeys_schema)
  show "sellKeys mint owner = account_list Sell mint owner (spec_schema Sell)"
    by (rule sellKeys_schema)
  show "buyKeys mint owner = account_list Buy mint owner buy_schema"
    by (rule buyKeys_schema)
next
  fix u instrs p sg ks pid d
  assume s: "SendTransaction u instrs p sg \<in> set (snd (sellToken env sellConfig privKey rpcUrl))"
    and t: "TransactionInstruction ks pid d \<in> set instrs"
  from sellToken_sends [OF s] obtain owner' balance where
    i: "instrs = sellInstructions (Base58 (tokenMint sellConfig)) owner' (sell_payload balance)"
    and p: "p = owner'" by blast
  from i t have k: "pid = PUMP_FUN_PROGRAM \<and> ks = sellKeys (Base58 (tokenMint sellConfig)) owner'"
    by (simp add: sellInstructions_def)
  from k show "pid = PUMP_FUN_PROGRAM" by simp
  from k p show "\<exists>m. ks = account_list Sell m p (spec_schema Sell)"
    using sellKeys_schema by blast
next
  fix u instrs p sg ks pid d
  assume s: "SendTransaction u instrs p sg \<in> set (snd (launchToken env launchConfig privKey rpcUrl))"
    and t: "TransactionInstruction ks pid d \<in> set instrs"
  from launch_sends [OF s] t obtain m where
    k: "pid = PUMP_FUN_PROGRAM" "ks = createKeys m p \<or> ks = buyKeys m p" by blast
  from k show "pid = PUMP_FUN_PROGRAM" by simp
  from k show "\<exists>m. ks = account_list Create m p (spec_schema Create)
                 \<or> ks = account_list Buy m p buy_schema"
    using createKeys_schema buyKeys_schema by metis
qed

theorem C5_account_lists_follow_schema_witness:
  "SendTransaction default_rpc
      (sellInstructions (Base58 ''mint'') (Base58 ''owner'') (sell_payload 153285714285714))
      (Base58 ''owner'') [Base58 ''owner'']
     \<in> set (snd (sellToken env_ok demo_sellConfig (KeypairObject (Base58 ''owner'')) None))
   \<and> TransactionInstruction (sellKeys (Base58 ''mint'') (Base58 ''owner'')) PUMP_FUN_PROGRAM
        (sell_payload 153285714285714)
       \<in> set (sellInstructions (Base58 ''mint'') (Base58 ''owner'') (sell_payload 153285714285714))
   \<and> (\<exists>m. sellKeys (Base58 ''mint'') (Base58 ''owner'')
             = account_list Sell m (Base58 ''owner'') (spec_schema Sell))
   \<and> buyKeys (Base58 ''mint'') (Base58 ''owner'')
        = account_list Buy (Base58 ''mint'') (Base58 ''owner'') buy_schema"
proof -
  have h: "SendTransaction default_rpc
      (sellInstructions (Base58 ''mint'') (Base58 ''owner'') (sell_payload 153285714285714))
      (Base58 ''owner'') [Base58 ''owner'']
     \<in> set (snd (sellToken env_ok demo_sellConfig (KeypairObject (Base58 ''owner'')) None))"
    using sell_env_ok [of demo_sellConfig "Base58 ''owner''"] by (simp add: demo_sellConfig_def)
  have t: "TransactionInstruction (sellKeys (Base58 ''mint'') (Base58 ''owner'')) PUMP_FUN_PROGRAM
        (sell_payload 153285714285714)
       \<in> set (sellInstructions (Base58 ''mint'') (Base58 ''owner'') (sell_payload 153285714285714))"
    by (simp add: sellInstructions_def)
  from h t
    C5_account_lists_follow_schema [of "Base58 ''mint''" "Base58 ''owner''" env_ok demo_sellConfig
      "KeypairObject (Base58 ''owner'')" None long_symbol_config]
  show ?thesis by blast
qed

theorem C5_buy_order_counterexample:
  "buyKeys (Base58 ''mint'') (Base58 ''owner'')
     \<noteq> account_list Buy (Base58 ''mint'') (Base58 ''owner'') (spec_schema Buy)
   \<and> buyKeys (Base58 ''mint'') (Base58 ''owner'') ! 8 = acct TOKEN_PROGRAM_ID False False
   \<and> account_list Buy (Base58 ''mint'') (Base58 ''owner'') (spec_schema Buy) ! 8
       = acct (creatorVault (Base58 ''owner'')) False True
   \<and> buyKeys (Base58 ''mint'') (Base58 ''owner'') ! 9 = acct (creatorVault (Base58 ''owner'')) False True
   \<and> account_list Buy (Base58 ''mint'') (Base58 ''owner'') (spec_schema Buy) ! 9
       = acct TOKEN_PROGRAM_ID False False"
  by (simp add: buyKeys_def account_list_def spec_schema_def acct_def TOKEN_PROGRAM_ID_def creatorVault_def)

text \<open>
  Claim C9, as amended. \<open>launchToken\<close> rejects a request whose name, symbol or metadata
  URL is missing before any network call, with no retry (it returns after no effect at
  all); \<open>sellToken\<close> does the same for a request whose token mint is missing, whose
  minimum output or priority fee is negative or whose slippage is outside [0, 100], and
  the error is the slippage message when the slippage is the first field at fault. A
  symbol longer than 10 characters and a launch slippage outside [0, 100] are rejected by
  \<open>validateTokenConfig\<close>, which \<open>launchToken\<close> does not call.
\<close>

theorem C9_validation_before_network:
  "(name config = [] \<or> symbol config = [] \<or> metadataUrl config = [] \<longrightarrow>
      launchToken env config privKey rpcUrl
        = (LaunchFailed ''Token name and symbol are required'', []))
   \<and> (tokenMint sellConfig = [] \<or> minSolOut sellConfig < 0 \<or> slippage sellConfig < 0
        \<or> slippage sellConfig > 100 \<or> priorityFee sellConfig < 0 \<longrightarrow>
      (\<exists>msg. sellToken env sellConfig privKey rpcUrl = (SellFailed msg, [])))
   \<and> (newConnection env (endpoint rpcUrl) = Inr ()
        \<and> (case privKey of KeyString k \<Rightarrow> getKeyPairFromPrivateKey env k
                          | KeypairObject kp \<Rightarrow> Inr kp) = Inr owner
        \<and> tokenMint sellConfig \<noteq> [] \<and> 0 \<le> minSolOut sellConfig
        \<and> (slippage sellConfig < 0 \<or> slippage sellConfig > 100) \<longrightarrow>
      sellToken env sellConfig privKey rpcUrl
        = (SellFailed ''Slippage must be between 0 and 100'', []))
   \<and> (name config = [] \<or> symbol config = [] \<or> length (symbol config) > 10
        \<or> (\<exists>sl. launchSlippage config = Some sl \<and> (sl < 0 \<or> sl > 100)) \<longrightarrow>
      (\<exists>msg. validateTokenConfig config = Inl msg))"
proof (intro conjI impI)
  assume "name config = [] \<or> symbol config = [] \<or> metadataUrl config = []"
  then show "launchToken env config privKey rpcUrl
        = (LaunchFailed ''Token name and symbol are required'', [])"
    by (simp add: launchToken_def launch_body_def throw_def message_def)
next
  assume bad: "tokenMint sellConfig = [] \<or> minSolOut sellConfig < 0 \<or> slippage sellConfig < 0
        \<or> slippage sellConfig > 100 \<or> priorityFee sellConfig < 0"
  then have "\<exists>m. validateSellConfig (sellConfig\<lparr>tokenAmount := 1\<rparr>) = Inl m"
    by (simp add: validateSellConfig_def) blast
  then obtain m where v: "validateSellConfig (sellConfig\<lparr>tokenAmount := 1\<rparr>) = Inl m"
    by blast
  have "\<exists>e. sell_prepare env sellConfig privKey (endpoint rpcUrl) = (Inl e, [])"
    by (auto simp add: sell_prepare_def v bind_def lift_def split: sum.splits)
  then show "\<exists>msg. sellToken env sellConfig privKey rpcUrl = (SellFailed msg, [])"
    by (auto simp add: sellToken_def sell_body_def bind_def Let_def)
next
  assume a: "newConnection env (endpoint rpcUrl) = Inr ()
        \<and> (case privKey of KeyString k \<Rightarrow> getKeyPairFromPrivateKey env k
                          | KeypairObject kp \<Rightarrow> Inr kp) = Inr owner
        \<and> tokenMint sellConfig \<noteq> [] \<and> 0 \<le> minSolOut sellConfig
        \<and> (slippage sellConfig < 0 \<or> slippage sellConfig > 100)"
  then have v: "validateSellConfig (sellConfig\<lparr>tokenAmount := 1\<rparr>)
                  = Inl ''Slippage must be between 0 and 100''"
    by (auto simp add: validateSellConfig_def)
  have "sell_prepare env sellConfig privKey (endpoint rpcUrl)
          = (Inl ''Slippage must be between 0 and 100'', [])"
    using a by (simp add: sell_prepare_def v bind_def lift_def)
  then show "sellToken env sellConfig privKey rpcUrl
        = (SellFailed ''Slippage must be between 0 and 100'', [])"
    by (simp add: sellToken_def sell_body_def bind_def Let_def message_def)
next
  assume "name config = [] \<or> symbol config = [] \<or> length (symbol config) > 10
        \<or> (\<exists>sl. launchSlippage config = Some sl \<and> (sl < 0 \<or> sl > 100))"
  then show "\<exists>msg. validateTokenConfig config = Inl msg"
    by (auto simp add: validateTokenConfig_def)
qed

theorem C9_validation_before_network_witness:
  "symbol (long_symbol_config\<lparr>symbol := []\<rparr>) = []
   \<and> launchToken env_ok (long_symbol_config\<lparr>symbol := []\<rparr>) (KeypairObject (Base58 ''owner'')) None
       = (LaunchFailed ''Token name and symbol are required'', [])
   \<and> slippage (demo_sellConfig\<lparr>slippage := 150\<rparr>) > 100
   \<and> sellToken env_ok (demo_sellConfig\<lparr>slippage := 150\<rparr>) (KeypairObject (Base58 ''owner'')) None
       = (SellFailed ''Slippage must be between 0 and 100'', [])
   \<and> length (symbol long_symbol_config) > 10
   \<and> (\<exists>msg. validateTokenConfig long_symbol_config = Inl msg)"
proof -
  have a: "symbol (long_symbol_config\<lparr>symbol := []\<rparr>) = []" by simp
  have b: "slippage (demo_sellConfig\<lparr>slippage := 150\<rparr>) > 100" by simp
  have c: "length (symbol long_symbol_config) > 10" by (simp add: long_symbol_config_def)
  have d: "tokenMint (demo_sellConfig\<lparr>slippage := 150\<rparr>) \<noteq> []
           \<and> 0 \<le> minSolOut (demo_sellConfig\<lparr>slippage := 150\<rparr>)"
    by (simp add: demo_sellConfig_def)
  have e: "newConnection env_ok (endpoint None) = Inr ()" by (simp add: env_ok_fields)
  from a
    C9_validation_before_network [of "long_symbol_config\<lparr>symbol := []\<rparr>" env_ok
       "KeypairObject (Base58 ''owner'')" None "demo_sellConfig\<lparr>slippage := 150\<rparr>" "Base58 ''owner''"]
  have l: "launchToken env_ok (long_symbol_config\<lparr>symbol := []\<rparr>) (KeypairObject (Base58 ''owner'')) None
       = (LaunchFailed ''Token name and symbol are required'', [])" by blast
  from b d e
    C9_validation_before_network [of "long_symbol_config\<lparr>symbol := []\<rparr>" env_ok
       "KeypairObject (Base58 ''owner'')" None "demo_sellConfig\<lparr>slippage := 150\<rparr>" "Base58 ''owner''"]
  have s: "sellToken env_ok (demo_sellConfig\<lparr>slippage := 150\<rparr>) (KeypairObject (Base58 ''owner'')) None
       = (SellFailed ''Slippage must be between 0 and 100'', [])" by simp
  from c
    C9_validation_before_network [of long_symbol_config env_ok
       "KeypairObject (Base58 ''owner'')" None demo_sellConfig "Base58 ''owner''"]
  have v: "\<exists>msg. validateTokenConfig long_symbol_config = Inl msg" by blast
  from a l b s c v show ?thesis by blast
qed

theorem C9_launch_accepts_malformed_counterexample:
  "length (symbol long_symbol_config) = 11
   \<and> launchSlippage long_symbol_config = Some 150
   \<and> validateTokenConfig long_symbol_config = Inl ''Token symbol must be 10 characters or less''
   \<and> fst (launchToken env_ok long_symbol_config (KeypairObject (Base58 ''owner'')) None)
       = Launched ''sig'' (Base58 ''mint'')
   \<and> length (snd (launchToken env_ok long_symbol_config (KeypairObject (Base58 ''owner'')) None)) = 1"
proof -
  have "validateTokenConfig long_symbol_config = Inl ''Token symbol must be 10 characters or less''"
    by (simp add: validateTokenConfig_def long_symbol_config_def trim_def is_space_def)
  moreover have "length (symbol long_symbol_config) = 11 \<and> launchSlippage long_symbol_config = Some 150"
    by (simp add: long_symbol_config_def)
  ultimately show ?thesis using launch_long_symbol_run by auto
qed

section \<open>Properties of the launch queue\<close>

lemma queue_checkAndResetCounters [simp]:
  "queue (checkAndResetCounters midnight now q) = queue q"
  by (simp add: checkAndResetCounters_def Let_def)

lemma queue_record_outcome [simp]:
  "queue (record_outcome outcome q) = queue q"
  by (simp add: record_outcome_def Let_def split: settled.splits option.splits)

lemma saveQueue_consistent:
  "consistent d0 w \<Longrightarrow> consistent d0 (saveQueue now ok w)"
  by (simp add: consistent_def saveQueue_def)

lemma sleep_consistent:
  "consistent d0 w \<Longrightarrow> consistent d0 (sleep now ms w)"
  by (simp add: consistent_def sleep_def)

lemma loop_head_consistent:
  "consistent d0 w \<Longrightarrow> consistent d0 (loop_head midnight now ok w)"
  by (auto simp add: consistent_def loop_head_def saveQueue_def sleep_def snapshot_def Let_def
        split: list.splits)

lemma processQueue_consistent:
  "consistent d0 w \<Longrightarrow> consistent d0 (processQueue midnight now ok w)"
proof -
  assume c: "consistent d0 w"
  then have "consistent d0 (w\<lparr>qm := (qm w)\<lparr>processing := True\<rparr>\<rparr>)"
    by (simp add: consistent_def)
  then have "consistent d0 (loop_head midnight now ok (w\<lparr>qm := (qm w)\<lparr>processing := True\<rparr>\<rparr>))"
    by (rule loop_head_consistent)
  with c show ?thesis by (simp add: processQueue_def)
qed

lemma addToQueue_consistent:
  "consistent d0 w \<Longrightarrow> consistent d0 (addToQueue midnight now ok tweetId w)"
proof -
  assume c: "consistent d0 w"
  show ?thesis
  proof (cases "tweetId \<in> set (queue (qm w))")
    case True
    with c show ?thesis by (simp add: addToQueue_def)
  next
    case False
    with c have "consistent d0 (w\<lparr>qm := (qm w)\<lparr>queue := queue (qm w) @ [tweetId]\<rparr>\<rparr>)"
      by (simp add: consistent_def)
    then have s: "consistent d0 (saveQueue now ok (w\<lparr>qm := (qm w)\<lparr>queue := queue (qm w) @ [tweetId]\<rparr>\<rparr>))"
      by (rule saveQueue_consistent)
    from False s processQueue_consistent [OF s] show ?thesis
      by (simp add: addToQueue_def Let_def)
  qed
qed

lemma resumeQueue_consistent:
  "consistent d0 w \<Longrightarrow> consistent d0 (resumeQueue midnight now ok w)"
proof -
  assume c: "consistent d0 w"
  then have p: "consistent d0 (w\<lparr>qm := (qm w)\<lparr>paused := False\<rparr>\<rparr>)"
    by (simp add: consistent_def)
  from p processQueue_consistent [OF p] show ?thesis
    by (simp add: resumeQueue_def Let_def)
qed

lemma clearQueue_consistent:
  "consistent d0 w \<Longrightarrow> consistent d0 (clearQueue now ok w)"
proof -
  assume "consistent d0 w"
  then have "consistent d0 (w\<lparr>qm := (qm w)\<lparr>queue := []\<rparr>\<rparr>)"
    by (simp add: consistent_def)
  then show ?thesis unfolding clearQueue_def by (rule saveQueue_consistent)
qed

lemma pauseQueue_consistent:
  "consistent d0 w \<Longrightarrow> consistent d0 (pauseQueue w)"
  by (simp add: consistent_def pauseQueue_def)

lemma after_launch_consistent:
  "consistent d0 w \<Longrightarrow> consistent d0 (after_launch midnight now ok outcome w)"
proof -
  assume "consistent d0 w"
  then have r: "consistent d0 (w\<lparr>qm := record_outcome outcome (qm w)\<rparr>)"
    by (simp add: consistent_def)
  from r sleep_consistent [OF r] loop_head_consistent [OF r] show ?thesis
    by (simp add: after_launch_def Let_def)
qed

lemma clock_consistent:
  "consistent d0 w \<Longrightarrow> consistent d0 (w\<lparr>clock := now\<rparr>)"
  by (simp add: consistent_def)

lemma step_consistent:
  "consistent d0 w \<Longrightarrow> consistent d0 (step midnight w t)"
proof -
  assume c: "consistent d0 w"
  obtain now ok occ where t: "t = (now, ok, occ)" by (cases t)
  note c' = clock_consistent [OF c, of now]
  show ?thesis
    unfolding t
    using c addToQueue_consistent [OF c'] processQueue_consistent [OF c']
      pauseQueue_consistent [OF c'] resumeQueue_consistent [OF c'] clearQueue_consistent [OF c']
      loop_head_consistent [OF c'] after_launch_consistent [OF c']
    by (simp add: Let_def split: occurrence.splits suspended.splits)
qed

lemma run_consistent:
  "consistent d0 w \<Longrightarrow> consistent d0 (run midnight w turns)"
  unfolding run_def
  by (induction turns arbitrary: w) (simp_all add: step_consistent)

lemma loop_head_drops:
  "queue (qm (loop_head midnight now ok w)) = queue (qm w)
   \<or> queue (qm (loop_head midnight now ok w)) = tl (queue (qm w))"
  by (auto simp add: loop_head_def saveQueue_def sleep_def Let_def split: list.splits)

lemma after_launch_drops:
  "queue (qm (after_launch midnight now ok outcome w)) = queue (qm w)
   \<or> queue (qm (after_launch midnight now ok outcome w)) = tl (queue (qm w))"
  using loop_head_drops [of midnight now ok "w\<lparr>qm := record_outcome outcome (qm w)\<rparr>"]
  by (auto simp add: after_launch_def sleep_def Let_def)

lemma loop_turn_drops:
  assumes "occ = TimerFired \<or> occ = LaunchSettled outcome"
  shows "queue (qm (step midnight w (now, ok, occ))) = queue (qm w)
       \<or> queue (qm (step midnight w (now, ok, occ))) = tl (queue (qm w))"
  using assms loop_head_drops [of midnight now ok "w\<lparr>clock := now\<rparr>"]
    after_launch_drops [of midnight now ok outcome "w\<lparr>clock := now\<rparr>"]
  by (auto simp add: Let_def split: suspended.splits)

lemma saveQueue_limits:
  "list_all within_limits (log w) \<Longrightarrow> list_all within_limits (log (saveQueue now ok w))"
  by (simp add: saveQueue_def)

lemma loop_head_limits:
  "list_all within_limits (log w) \<Longrightarrow> list_all within_limits (log (loop_head midnight now ok w))"
  by (auto simp add: loop_head_def saveQueue_def sleep_def Let_def split: list.splits)

lemma processQueue_limits:
  "list_all within_limits (log w) \<Longrightarrow> list_all within_limits (log (processQueue midnight now ok w))"
  using loop_head_limits [of "w\<lparr>qm := (qm w)\<lparr>processing := True\<rparr>\<rparr>" midnight now ok]
  by (simp add: processQueue_def)

lemma addToQueue_limits:
  "list_all within_limits (log w) \<Longrightarrow> list_all within_limits (log (addToQueue midnight now ok tweetId w))"
  using processQueue_limits
          [of "saveQueue now ok (w\<lparr>qm := (qm w)\<lparr>queue := queue (qm w) @ [tweetId]\<rparr>\<rparr>)" midnight now ok]
  by (simp add: addToQueue_def Let_def saveQueue_def)

lemma resumeQueue_limits:
  "list_all within_limits (log w) \<Longrightarrow> list_all within_limits (log (resumeQueue midnight now ok w))"
  using processQueue_limits [of "w\<lparr>qm := (qm w)\<lparr>paused := False\<rparr>\<rparr>" midnight now ok]
  by (simp add: resumeQueue_def Let_def)

lemma after_launch_limits:
  "list_all within_limits (log w) \<Longrightarrow> list_all within_limits (log (after_launch midnight now ok outcome w))"
  using loop_head_limits [of "w\<lparr>qm := record_outcome outcome (qm w)\<rparr>" midnight now ok]
  by (simp add: after_launch_def Let_def sleep_def)

lemma step_limits:
  "list_all within_limits (log w) \<Longrightarrow> list_all within_limits (log (step midnight w t))"
proof -
  assume l: "list_all within_limits (log w)"
  obtain now ok occ where t: "t = (now, ok, occ)" by (cases t)
  have l': "list_all within_limits (log (w\<lparr>clock := now\<rparr>))" using l by simp
  show ?thesis
    unfolding t
    using l addToQueue_limits [OF l'] processQueue_limits [OF l'] resumeQueue_limits [OF l']
      loop_head_limits [OF l'] after_launch_limits [OF l']
    by (simp add: Let_def pauseQueue_def clearQueue_def saveQueue_def
          split: occurrence.splits suspended.splits)
qed

lemma run_limits:
  "list_all within_limits (log w) \<Longrightarrow> list_all within_limits (log (run midnight w turns))"
  unfolding run_def
  by (induction turns arbitrary: w) (simp_all add: step_limits)

lemmas queue_defs = construct_def loadQueue_def addToQueue_def processQueue_def loop_head_def
  saveQueue_def snapshot_def checkAndResetCounters_def sleep_def after_launch_def record_outcome_def
  pauseQueue_def resumeQueue_def clearQueue_def utc_midnight_def Let_def

text \<open>
  Claim C3, as amended. In every execution that starts from a manager with no duplicate
  in its pending list: a request id that begins processing has been removed from the
  pending list in memory, and \<open>saveQueue\<close> has been called on that list, directly before
  the orchestrator is called for it; queue.json holds what the last successful write put
  there (a write that fails is caught and processing goes on, so the file may still list
  the id); no call is made for an id that is on the pending list; the pending list never
  holds a duplicate; and the steps of the loop itself (a timer firing, a call settling)
  never add an id to the pending list: they leave it as it is or remove its head.
\<close>

theorem C3_removed_and_saved_before_dispatch:
  assumes "distinct (queue (qm w0))" "log w0 = []"
  shows "guarded (log (run midnight w0 turns))
       \<and> disk (run midnight w0 turns) = last_written (disk w0) (log (run midnight w0 turns))
       \<and> distinct (queue (qm (run midnight w0 turns)))
       \<and> (\<forall>w now ok outcome.
             (queue (qm (step midnight w (now, ok, TimerFired))) = queue (qm w)
              \<or> queue (qm (step midnight w (now, ok, TimerFired))) = tl (queue (qm w)))
           \<and> (queue (qm (step midnight w (now, ok, LaunchSettled outcome))) = queue (qm w)
              \<or> queue (qm (step midnight w (now, ok, LaunchSettled outcome))) = tl (queue (qm w))))"
proof -
  have "consistent (disk w0) w0" using assms by (simp add: consistent_def)
  then have "consistent (disk w0) (run midnight w0 turns)" by (rule run_consistent)
  then show ?thesis
    using loop_turn_drops [of TimerFired _ midnight] loop_turn_drops [of "LaunchSettled _" _ midnight]
    by (simp add: consistent_def)
qed

theorem C3_removed_and_saved_before_dispatch_witness:
  "distinct (queue (qm rate_start)) \<and> log rate_start = []
   \<and> dispatched (history (run utc_midnight rate_start rate_turns)) = [''a'', ''b'']
   \<and> guarded (log (run utc_midnight rate_start rate_turns))
   \<and> disk (run utc_midnight rate_start rate_turns)
        = last_written (disk rate_start) (log (run utc_midnight rate_start rate_turns))
   \<and> distinct (queue (qm (run utc_midnight rate_start rate_turns)))"
proof -
  have a: "distinct (queue (qm rate_start))" and b: "log rate_start = []"
    by (simp_all add: rate_start_def construct_def loadQueue_def)
  have d: "dispatched (history (run utc_midnight rate_start rate_turns)) = [''a'', ''b'']"
    by (simp add: run_def rate_start_def rate_turns_def queue_defs history_def)
  from a b d C3_removed_and_saved_before_dispatch [OF a b, of utc_midnight rate_turns]
  show ?thesis by simp
qed

theorem C3_dispatch_without_persisting_counterexample:
  "dispatched (history (run utc_midnight unwritable_start unwritable_turns)) = [''a'']
   \<and> loop (run utc_midnight unwritable_start unwritable_turns) = Launching ''a''
   \<and> queue (qm (run utc_midnight unwritable_start unwritable_turns)) = []
   \<and> map_option file_queue (disk (run utc_midnight unwritable_start unwritable_turns)) = Some [''a'']
   \<and> log (run utc_midnight unwritable_start unwritable_turns) ! 1
        = SaveQueue \<lparr>file_queue = [], file_launchesThisHour = 0, file_hourResetTime = 3600000,
                     file_budgetUsed = 0, file_budgetResetTime = 86400000,
                     file_totalProcessed = 0, file_totalFailed = 0, file_lastSaved = 3000\<rparr> False"
  by (simp add: run_def unwritable_start_def unwritable_turns_def queue_defs history_def)

lemma timer_at_limit_waits:
  assumes "loop w = Sleeping wake" "wake \<le> t" "clock w \<le> t" "queue (qm w) = tweetId # rest"
    "\<not> paused (qm w)" "hourlyLimit (qm w) \<le> launchesThisHour (qm w)" "t < hourResetTime (qm w)"
  shows "log (step midnight w (t, ok, TimerFired))
           = Sleep (min (hourResetTime (qm w) - t) 300000) # log w
       \<and> launchesThisHour (qm (step midnight w (t, ok, TimerFired))) = launchesThisHour (qm w)
       \<and> queue (qm (step midnight w (t, ok, TimerFired))) = queue (qm w)"
  using assms by (simp add: loop_head_def checkAndResetCounters_def sleep_def Let_def)

lemma timer_after_reset_dispatches:
  assumes "loop w = Sleeping wake" "wake \<le> t" "clock w \<le> t" "queue (qm w) = tweetId # rest"
    "\<not> paused (qm w)" "hourResetTime (qm w) \<le> t" "0 < hourlyLimit (qm w)"
    "0 < budgetLimit (qm w)" "budgetUsed (qm w) < budgetLimit (qm w)"
  shows "loop (step midnight w (t, ok, TimerFired)) = Launching tweetId
       \<and> launchesThisHour (qm (step midnight w (t, ok, TimerFired))) = 0
       \<and> hourResetTime (qm (step midnight w (t, ok, TimerFired))) = t + 3600000
       \<and> dispatched (log (step midnight w (t, ok, TimerFired))) = tweetId # dispatched (log w)
       \<and> launchesThisHour (record_outcome (Resolved r) (qm (step midnight w (t, ok, TimerFired)))) = 1"
  using assms
  by (simp add: loop_head_def checkAndResetCounters_def saveQueue_def sleep_def record_outcome_def Let_def
        split: option.splits)

lemma run_append: "run midnight w (xs @ ys) = run midnight (run midnight w xs) ys"
  by (simp add: run_def)

lemma run_single: "run midnight w [t] = step midnight w t"
  by (simp add: run_def)

lemma rate_waiting:
  "loop (run utc_midnight rate_start rate_turns) = Sleeping 3420000"
  "clock (run utc_midnight rate_start rate_turns) = 3120000"
  "queue (qm (run utc_midnight rate_start rate_turns)) = [''c'']"
  "paused (qm (run utc_midnight rate_start rate_turns)) = False"
  "launchesThisHour (qm (run utc_midnight rate_start rate_turns)) = 2"
  "hourlyLimit (qm (run utc_midnight rate_start rate_turns)) = 2"
  "hourResetTime (qm (run utc_midnight rate_start rate_turns)) = 3600000"
  "budgetLimit (qm (run utc_midnight rate_start rate_turns)) = 1"
  "budgetUsed (qm (run utc_midnight rate_start rate_turns)) = 102 / 10000"
  "dispatched (log (run utc_midnight rate_start rate_turns)) = [''b'', ''a'']"
  "budgetResetTime (qm (run utc_midnight rate_start rate_turns)) = 86400000"
  by (simp_all add: run_def rate_start_def rate_turns_def queue_defs)

lemma rate_waiting_longer:
  "loop (run utc_midnight rate_start (rate_turns @ [(3420000, True, TimerFired)])) = Sleeping 3600000"
  "clock (run utc_midnight rate_start (rate_turns @ [(3420000, True, TimerFired)])) = 3420000"
  "queue (qm (run utc_midnight rate_start (rate_turns @ [(3420000, True, TimerFired)]))) = [''c'']"
  "paused (qm (run utc_midnight rate_start (rate_turns @ [(3420000, True, TimerFired)]))) = False"
  "launchesThisHour (qm (run utc_midnight rate_start (rate_turns @ [(3420000, True, TimerFired)]))) = 2"
  "hourlyLimit (qm (run utc_midnight rate_start (rate_turns @ [(3420000, True, TimerFired)]))) = 2"
  "hourResetTime (qm (run utc_midnight rate_start (rate_turns @ [(3420000, True, TimerFired)]))) = 3600000"
  "budgetLimit (qm (run utc_midnight rate_start (rate_turns @ [(3420000, True, TimerFired)]))) = 1"
  "budgetUsed (qm (run utc_midnight rate_start (rate_turns @ [(3420000, True, TimerFired)]))) = 102 / 10000"
  "dispatched (log (run utc_midnight rate_start (rate_turns @ [(3420000, True, TimerFired)]))) = [''b'', ''a'']"
  "budgetResetTime (qm (run utc_midnight rate_start (rate_turns @ [(3420000, True, TimerFired)]))) = 86400000"
  unfolding run_append run_single
  using rate_waiting
  by (simp_all add: loop_head_def checkAndResetCounters_def sleep_def Let_def)


text \<open>
  Claim C4. The loop never calls the orchestrator while the hourly counter is at or above
  the hourly limit (nor while the budget counter is at or above the budget limit): in
  every execution, every call is made with the counter below the limit. A loop that
  wakes up with the counter at the limit before the hour-reset instant sleeps again, for
  at most five minutes, and calls nothing; one that wakes up at or after that instant
  resets the counter to 0, moves the reset instant an hour on and calls the orchestrator
  for the head of the list, after which a resolved call leaves the counter at 1. With an
  hourly limit of 2 and three ids enqueued (both first calls resolving within the hour),
  exactly two calls are made before the loop waits; the third is made when the timer
  fires at the reset instant, and the counter is then 0, and 1 once that call resolves.
\<close>

theorem C4_hourly_limit_respected:
  assumes "log w0 = []"
  shows "list_all within_limits (log (run midnight w0 turns))
   \<and> (\<forall>w wake t ok tweetId rest.
         loop w = Sleeping wake \<and> wake \<le> t \<and> clock w \<le> t \<and> queue (qm w) = tweetId # rest
         \<and> \<not> paused (qm w) \<and> hourlyLimit (qm w) \<le> launchesThisHour (qm w)
         \<and> t < hourResetTime (qm w)
         \<longrightarrow> log (step midnight w (t, ok, TimerFired))
               = Sleep (min (hourResetTime (qm w) - t) 300000) # log w
             \<and> launchesThisHour (qm (step midnight w (t, ok, TimerFired))) = launchesThisHour (qm w)
             \<and> queue (qm (step midnight w (t, ok, TimerFired))) = queue (qm w))
   \<and> (\<forall>w wake t ok tweetId rest r.
         loop w = Sleeping wake \<and> wake \<le> t \<and> clock w \<le> t \<and> queue (qm w) = tweetId # rest
         \<and> \<not> paused (qm w) \<and> hourResetTime (qm w) \<le> t \<and> 0 < hourlyLimit (qm w)
         \<and> 0 < budgetLimit (qm w) \<and> budgetUsed (qm w) < budgetLimit (qm w)
         \<longrightarrow> loop (step midnight w (t, ok, TimerFired)) = Launching tweetId
             \<and> launchesThisHour (qm (step midnight w (t, ok, TimerFired))) = 0
             \<and> hourResetTime (qm (step midnight w (t, ok, TimerFired))) = t + 3600000
             \<and> dispatched (log (step midnight w (t, ok, TimerFired))) = tweetId # dispatched (log w)
             \<and> launchesThisHour
                  (record_outcome (Resolved r) (qm (step midnight w (t, ok, TimerFired)))) = 1)
   \<and> dispatched (history (run utc_midnight rate_start rate_turns)) = [''a'', ''b'']
   \<and> loop (run utc_midnight rate_start rate_turns) = Sleeping 3420000
   \<and> launchesThisHour (qm (run utc_midnight rate_start rate_turns)) = 2
   \<and> dispatched (history (run utc_midnight rate_start
         (rate_turns @ [(3420000, True, TimerFired), (3600000, True, TimerFired)])))
       = [''a'', ''b'', ''c'']
   \<and> launchesThisHour (qm (run utc_midnight rate_start
         (rate_turns @ [(3420000, True, TimerFired), (3600000, True, TimerFired)]))) = 0
   \<and> launchesThisHour (qm (run utc_midnight rate_start
         (rate_turns @ [(3420000, True, TimerFired), (3600000, True, TimerFired),
                        (3700000, True, LaunchSettled (Resolved \<lparr>success = True, solSpent = Some (102 / 10000)\<rparr>))])))
       = 1"
proof -
  have "list_all within_limits (log w0)" using assms by simp
  then have safe: "list_all within_limits (log (run midnight w0 turns))" by (rule run_limits)
  have w2: "rate_turns @ [(3420000, True, TimerFired), (3600000, True, TimerFired)]
             = (rate_turns @ [(3420000, True, TimerFired)]) @ [(3600000, True, TimerFired)]"
    by simp
  have third: "loop (run utc_midnight rate_start
                  (rate_turns @ [(3420000, True, TimerFired), (3600000, True, TimerFired)])) = Launching ''c''
       \<and> launchesThisHour (qm (run utc_midnight rate_start
                  (rate_turns @ [(3420000, True, TimerFired), (3600000, True, TimerFired)]))) = 0
       \<and> hourResetTime (qm (run utc_midnight rate_start
                  (rate_turns @ [(3420000, True, TimerFired), (3600000, True, TimerFired)]))) = 3600000 + 3600000
       \<and> dispatched (log (run utc_midnight rate_start
                  (rate_turns @ [(3420000, True, TimerFired), (3600000, True, TimerFired)])))
            = ''c'' # dispatched (log (run utc_midnight rate_start (rate_turns @ [(3420000, True, TimerFired)])))
       \<and> launchesThisHour (record_outcome (Resolved \<lparr>success = True, solSpent = Some (102 / 10000)\<rparr>)
            (qm (run utc_midnight rate_start
                  (rate_turns @ [(3420000, True, TimerFired), (3600000, True, TimerFired)])))) = 1"
    unfolding w2 run_append [of _ _ "rate_turns @ [(3420000, True, TimerFired)]"] run_single
    by (rule timer_after_reset_dispatches [where wake = 3600000 and rest = "[]"])
       (simp_all add: rate_waiting_longer)
  have hist: "dispatched (history w) = rev (dispatched (log w))" for w
  proof -
    have "dispatched (rev es) = rev (dispatched es)" for es
    proof (induction es)
      case Nil show ?case by simp
    next
      case (Cons e es)
      have "dispatched (xs @ [e]) = dispatched xs @ dispatched [e]" for xs
        by (induction xs rule: dispatched.induct) simp_all
      with Cons show ?case by (cases e) simp_all
    qed
    then show ?thesis by (simp add: history_def)
  qed
  have s1: "dispatched (history (run utc_midnight rate_start rate_turns)) = [''a'', ''b'']"
    by (simp add: hist rate_waiting)
  have s3: "dispatched (history (run utc_midnight rate_start
         (rate_turns @ [(3420000, True, TimerFired), (3600000, True, TimerFired)])))
       = [''a'', ''b'', ''c'']"
    using third by (simp add: hist rate_waiting_longer)
  have w3: "rate_turns @ [(3420000, True, TimerFired), (3600000, True, TimerFired),
                        (3700000, True, LaunchSettled (Resolved \<lparr>success = True, solSpent = Some (102 / 10000)\<rparr>))]
            = (rate_turns @ [(3420000, True, TimerFired), (3600000, True, TimerFired)])
              @ [(3700000, True, LaunchSettled (Resolved \<lparr>success = True, solSpent = Some (102 / 10000)\<rparr>))]"
    by simp
  have c3: "clock (run utc_midnight rate_start
                  (rate_turns @ [(3420000, True, TimerFired), (3600000, True, TimerFired)])) = 3600000
          \<and> queue (qm (run utc_midnight rate_start
                  (rate_turns @ [(3420000, True, TimerFired), (3600000, True, TimerFired)]))) = []"
    unfolding w2 run_append [of _ _ "rate_turns @ [(3420000, True, TimerFired)]"] run_single
    using rate_waiting_longer
    by (simp add: loop_head_def checkAndResetCounters_def saveQueue_def sleep_def Let_def)
  have s4: "launchesThisHour (qm (run utc_midnight rate_start
         (rate_turns @ [(3420000, True, TimerFired), (3600000, True, TimerFired),
                        (3700000, True, LaunchSettled (Resolved \<lparr>success = True, solSpent = Some (102 / 10000)\<rparr>))])))
       = 1"
    unfolding w3 run_append [of _ _ "rate_turns @ [(3420000, True, TimerFired), (3600000, True, TimerFired)]"] run_single
    using third c3
    by (simp add: after_launch_def loop_head_def Let_def)
  have waits: "\<forall>w wake t ok tweetId rest.
         loop w = Sleeping wake \<and> wake \<le> t \<and> clock w \<le> t \<and> queue (qm w) = tweetId # rest
         \<and> \<not> paused (qm w) \<and> hourlyLimit (qm w) \<le> launchesThisHour (qm w)
         \<and> t < hourResetTime (qm w)
         \<longrightarrow> log (step midnight w (t, ok, TimerFired))
               = Sleep (min (hourResetTime (qm w) - t) 300000) # log w
             \<and> launchesThisHour (qm (step midnight w (t, ok, TimerFired))) = launchesThisHour (qm w)
             \<and> queue (qm (step midnight w (t, ok, TimerFired))) = queue (qm w)"
    by (intro allI impI, elim conjE, rule timer_at_limit_waits)
  have resets: "\<forall>w wake t ok tweetId rest r.
         loop w = Sleeping wake \<and> wake \<le> t \<and> clock w \<le> t \<and> queue (qm w) = tweetId # rest
         \<and> \<not> paused (qm w) \<and> hourResetTime (qm w) \<le> t \<and> 0 < hourlyLimit (qm w)
         \<and> 0 < budgetLimit (qm w) \<and> budgetUsed (qm w) < budgetLimit (qm w)
         \<longrightarrow> loop (step midnight w (t, ok, TimerFired)) = Launching tweetId
             \<and> launchesThisHour (qm (step midnight w (t, ok, TimerFired))) = 0
             \<and> hourResetTime (qm (step midnight w (t, ok, TimerFired))) = t + 3600000
             \<and> dispatched (log (step midnight w (t, ok, TimerFired))) = tweetId # dispatched (log w)
             \<and> launchesThisHour
                  (record_outcome (Resolved r) (qm (step midnight w (t, ok, TimerFired)))) = 1"
    by (intro allI impI, elim conjE, rule timer_after_reset_dispatches)
  have t0: "launchesThisHour (qm (run utc_midnight rate_start
         (rate_turns @ [(3420000, True, TimerFired), (3600000, True, TimerFired)]))) = 0"
    using third by simp
  from safe waits resets s1 rate_waiting(1) rate_waiting(5) s3 t0 s4
  show ?thesis by (intro conjI) assumption+
qed

theorem C4_hourly_limit_respected_witness:
  "log rate_start = []
   \<and> list_all within_limits (log (run utc_midnight rate_start rate_turns))
   \<and> loop (run utc_midnight rate_start rate_turns) = Sleeping 3420000
   \<and> hourlyLimit (qm (run utc_midnight rate_start rate_turns))
        \<le> launchesThisHour (qm (run utc_midnight rate_start rate_turns))
   \<and> (3420000 :: int) < hourResetTime (qm (run utc_midnight rate_start rate_turns))
   \<and> launchesThisHour (qm (step utc_midnight (run utc_midnight rate_start rate_turns)
                               (3420000, True, TimerFired))) = 2
   \<and> queue (qm (step utc_midnight (run utc_midnight rate_start rate_turns)
                    (3420000, True, TimerFired))) = [''c'']
   \<and> loop (run utc_midnight rate_start (rate_turns @ [(3420000, True, TimerFired)])) = Sleeping 3600000
   \<and> hourResetTime (qm (run utc_midnight rate_start (rate_turns @ [(3420000, True, TimerFired)])))
        \<le> 3600000
   \<and> loop (step utc_midnight (run utc_midnight rate_start (rate_turns @ [(3420000, True, TimerFired)]))
             (3600000, True, TimerFired)) = Launching ''c''
   \<and> launchesThisHour (qm (step utc_midnight
         (run utc_midnight rate_start (rate_turns @ [(3420000, True, TimerFired)]))
         (3600000, True, TimerFired))) = 0"
proof -
  let ?w1 = "run utc_midnight rate_start rate_turns"
  let ?w2 = "run utc_midnight rate_start (rate_turns @ [(3420000, True, TimerFired)])"
  have l: "log rate_start = []" by (simp add: rate_start_def construct_def)
  note T = C4_hourly_limit_respected [OF l, of utc_midnight rate_turns]
  from T have safe: "list_all within_limits (log ?w1)" by (rule conjunct1)
  from T have waits: "\<forall>w wake t ok tweetId rest.
         loop w = Sleeping wake \<and> wake \<le> t \<and> clock w \<le> t \<and> queue (qm w) = tweetId # rest
         \<and> \<not> paused (qm w) \<and> hourlyLimit (qm w) \<le> launchesThisHour (qm w)
         \<and> t < hourResetTime (qm w)
         \<longrightarrow> log (step utc_midnight w (t, ok, TimerFired))
               = Sleep (min (hourResetTime (qm w) - t) 300000) # log w
             \<and> launchesThisHour (qm (step utc_midnight w (t, ok, TimerFired))) = launchesThisHour (qm w)
             \<and> queue (qm (step utc_midnight w (t, ok, TimerFired))) = queue (qm w)"
    by (rule conjunct2 [THEN conjunct1])
  from T have resets: "\<forall>w wake t ok tweetId rest r.
         loop w = Sleeping wake \<and> wake \<le> t \<and> clock w \<le> t \<and> queue (qm w) = tweetId # rest
         \<and> \<not> paused (qm w) \<and> hourResetTime (qm w) \<le> t \<and> 0 < hourlyLimit (qm w)
         \<and> 0 < budgetLimit (qm w) \<and> budgetUsed (qm w) < budgetLimit (qm w)
         \<longrightarrow> loop (step utc_midnight w (t, ok, TimerFired)) = Launching tweetId
             \<and> launchesThisHour (qm (step utc_midnight w (t, ok, TimerFired))) = 0
             \<and> hourResetTime (qm (step utc_midnight w (t, ok, TimerFired))) = t + 3600000
             \<and> dispatched (log (step utc_midnight w (t, ok, TimerFired))) = tweetId # dispatched (log w)
             \<and> launchesThisHour
                  (record_outcome (Resolved r) (qm (step utc_midnight w (t, ok, TimerFired)))) = 1"
    by (rule conjunct2 [THEN conjunct2, THEN conjunct1])
  have p1: "loop ?w1 = Sleeping 3420000 \<and> (3420000::int) \<le> 3420000 \<and> clock ?w1 \<le> 3420000
            \<and> queue (qm ?w1) = ''c'' # [] \<and> \<not> paused (qm ?w1)
            \<and> hourlyLimit (qm ?w1) \<le> launchesThisHour (qm ?w1) \<and> 3420000 < hourResetTime (qm ?w1)"
    by (simp add: rate_waiting)
  from waits [rule_format, OF p1, of True]
  have c1: "launchesThisHour (qm (step utc_midnight ?w1 (3420000, True, TimerFired))) = 2
          \<and> queue (qm (step utc_midnight ?w1 (3420000, True, TimerFired))) = [''c'']"
    by (simp add: rate_waiting)
  have p2: "loop ?w2 = Sleeping 3600000 \<and> (3600000::int) \<le> 3600000 \<and> clock ?w2 \<le> 3600000
            \<and> queue (qm ?w2) = ''c'' # [] \<and> \<not> paused (qm ?w2)
            \<and> hourResetTime (qm ?w2) \<le> 3600000 \<and> 0 < hourlyLimit (qm ?w2)
            \<and> 0 < budgetLimit (qm ?w2) \<and> budgetUsed (qm ?w2) < budgetLimit (qm ?w2)"
    by (simp add: rate_waiting_longer)
  from resets [rule_format, OF p2, of True]
  have c2: "loop (step utc_midnight ?w2 (3600000, True, TimerFired)) = Launching ''c''
          \<and> launchesThisHour (qm (step utc_midnight ?w2 (3600000, True, TimerFired))) = 0"
    by simp
  from l safe p1 c1 p2 c2 show ?thesis by simp
qed

section \<open>Properties of launchTokenFromTweet and of the counters\<close>







lemma paused_record_outcome [simp]:
  "paused (record_outcome outcome q) = paused q"
  by (simp add: record_outcome_def Let_def split: settled.splits option.splits)








end
